theory Spec2Isabelle
  imports Main
begin

section \<open>The operations table of the cluster database (lxd/db/operations.go)\<close>

subsection \<open>Go values\<close>

text \<open>
  \<^verbatim>\<open>type OperationType int64\<close> is an opaque code; no arithmetic is done on it or on
  the identifiers, so both are plain integers here.
\<close>

type_synonym OperationType = int

text \<open>The struct \<^verbatim>\<open>Operation\<close> with its four fields.\<close>

record Operation =
  ID :: int
  UUID :: string
  NodeAddress :: string
  Type :: OperationType

text \<open>\<^verbatim>\<open>Operation{}\<close>, the zero value.\<close>

definition null_Operation :: Operation where
  "null_Operation = \<lparr>ID = 0, UUID = [], NodeAddress = [], Type = 0\<rparr>"

text \<open>
  Go errors. \<open>ErrNoSuchObject\<close> is the package's sentinel for a missing row,
  \<open>Errorf\<close> is an error built by \<^verbatim>\<open>fmt.Errorf\<close> (the formatted text),
  \<open>Wrap\<close> is \<^verbatim>\<open>errors.Wrap(err, msg)\<close>, and \<open>StoreError\<close> is whatever the
  database driver reports. A nil error is \<open>None\<close> of \<open>error option\<close>.
\<close>

datatype error =
    ErrNoSuchObject
  | StoreError string
  | Errorf string
  | Wrap error string

text \<open>\<^verbatim>\<open>errors.Cause\<close>: the innermost error of a chain of wraps.\<close>

fun Cause :: "error \<Rightarrow> error" where
  "Cause (Wrap e msg) = Cause e"
| "Cause e = e"

text \<open>The verb \<^verbatim>\<open>%d\<close> of \<^verbatim>\<open>fmt\<close>: decimal digits, with a sign when negative.\<close>

fun string_of_nat :: "nat \<Rightarrow> string" where
  "string_of_nat n =
     (if n < 10 then [''0123456789'' ! n]
      else string_of_nat (n div 10) @ [''0123456789'' ! (n mod 10)])"

declare string_of_nat.simps [simp del]

definition string_of_int :: "int \<Rightarrow> string" where
  "string_of_int i = (if i < 0 then ''-'' @ string_of_nat (nat (- i)) else string_of_nat (nat i))"

subsection \<open>The store: three tables inside one transaction\<close>

text \<open>
  The logical schema: \<open>operations(id PK, uuid UNIQUE, node_id FK nodes.id, type,
  project_id FK projects.id NULLABLE)\<close>, with the tables \<open>nodes\<close> and \<open>projects\<close>
  owned elsewhere. A table is the list of its rows in the order a scan of the table
  visits them; SQL promises no order unless the statement has an ORDER BY.
\<close>

record operation_row =
  op_id :: int
  op_uuid :: string
  op_node_id :: int
  op_type :: int
  op_project_id :: "int option"

record node_row =
  node_id :: int
  node_address :: string

record project_row =
  project_id :: int
  project_name :: string

text \<open>A bound parameter or a result column (\<^verbatim>\<open>interface{}\<close> on the Go side).\<close>

datatype sql_value = SqlInt int | SqlText string | SqlNull

text \<open>
  The calls into \<^verbatim>\<open>database/sql\<close> that may report a failure of the store
  (connectivity, I/O, ...). The transaction carries, for each of them, the error it
  reports, and \<open>rows_err\<close>, the failure of a row iteration: \<open>Some (k, e)\<close> means that
  \<^verbatim>\<open>rows.Next()\<close> delivers \<open>k\<close> rows at most, then returns false, and
  \<^verbatim>\<open>rows.Err()\<close> is \<open>e\<close>.
\<close>

datatype call = Prepare | Query | Scan | Exec | RowsAffected | LastInsertId

record Tx =
  operations_tbl :: "operation_row list"
  nodes_tbl :: "node_row list"
  projects_tbl :: "project_row list"
  fail :: "call \<Rightarrow> error option"
  rows_err :: "(nat \<times> error) option"

text \<open>\<^verbatim>\<open>ClusterTx\<close>: the transaction and the identity of the local node.\<close>

record ClusterTx =
  tx :: Tx
  nodeID :: int

text \<open>
  The SQL statements this file sends to the store. Each constructor stands for the
  statement text quoted beside it; \<open>Select_operations w\<close> carries the predicate
  fragment \<open>w\<close> that \<^verbatim>\<open>operations\<close> splices into its statement, and
  \<open>Insert_or_replace\<close> the table and column names given to \<^verbatim>\<open>UpsertObject\<close>.
\<close>

datatype statement =
    Select_operations string
  | Select_local_uuids
  | Select_nodes_with_operations
  | Select_operations_of_type
  | Delete_operation_by_uuid
  | Delete_operations_by_node
  | Insert_or_replace string "string list"

text \<open>The result of an \<^verbatim>\<open>Exec\<close>.\<close>

record result =
  rows_affected :: int
  last_insert_id :: int

subsection \<open>What the statements mean\<close>

text \<open>
  The predicate fragments that the store accepts in the statement of \<^verbatim>\<open>operations\<close>,
  with their bound parameter; the empty fragment is no WHERE clause. The columns
  \<open>node_id\<close> and \<open>uuid\<close> exist in the table \<open>operations\<close> only. The fragment
  \<^verbatim>\<open>id=?\<close>, which \<^verbatim>\<open>GetOperationWithID\<close> passes, is not among them: the statement
  joins \<open>operations\<close> with \<open>nodes\<close>, both tables have a column \<open>id\<close>, and the store
  refuses the unqualified name (see \<open>tx_Prepare\<close>).
\<close>

definition where_filter :: "string \<Rightarrow> sql_value list \<Rightarrow> (operation_row \<Rightarrow> bool) option" where
  "where_filter w args =
     (if w = [] then (case args of [] \<Rightarrow> Some (\<lambda>r. True) | _ \<Rightarrow> None)
      else if w = ''node_id=?'' then
        (case args of [SqlInt n] \<Rightarrow> Some (\<lambda>r. op_node_id r = n) | _ \<Rightarrow> None)
      else if w = ''uuid=?'' then
        (case args of [SqlText u] \<Rightarrow> Some (\<lambda>r. op_uuid r = u) | _ \<Rightarrow> None)
      else None)"

text \<open>\<^verbatim>\<open>JOIN nodes ON nodes.id = operations.node_id\<close>: the node rows of one operation row.\<close>

definition joined_nodes :: "Tx \<Rightarrow> operation_row \<Rightarrow> node_row list" where
  "joined_nodes t r = filter (\<lambda>n. node_id n = op_node_id r) (nodes_tbl t)"

text \<open>
  \<^verbatim>\<open>LEFT OUTER JOIN projects ON projects.id = operations.project_id\<close>: the project rows
  of one operation row, or one all-NULL row (\<open>None\<close>) when there is none.
\<close>

definition left_joined_projects :: "Tx \<Rightarrow> operation_row \<Rightarrow> project_row option list" where
  "left_joined_projects t r =
     (case filter (\<lambda>p. Some (project_id p) = op_project_id r) (projects_tbl t) of
        [] \<Rightarrow> [None]
      | ps \<Rightarrow> map Some ps)"

text \<open>
  \<^verbatim>\<open>FROM operations LEFT JOIN projects ... JOIN nodes ...\<close>, the FROM clause shared by
  \<^verbatim>\<open>GetNodesWithRunningOperations\<close> and \<^verbatim>\<open>GetOperationsOfType\<close>.
\<close>

definition from_operations_projects_nodes ::
  "Tx \<Rightarrow> (operation_row \<times> project_row option \<times> node_row) list" where
  "from_operations_projects_nodes t =
     concat (map (\<lambda>r. concat (map (\<lambda>p. map (\<lambda>n. (r, p, n)) (joined_nodes t r))
                                   (left_joined_projects t r)))
                 (operations_tbl t))"

text \<open>
  \<^verbatim>\<open>projects.name = ? OR operations.project_id IS NULL\<close>. A comparison with the NULL
  name of an operation without project row is not true.
\<close>

definition project_matches :: "string \<Rightarrow> operation_row \<times> project_row option \<times> node_row \<Rightarrow> bool" where
  "project_matches name j =
     (case j of (r, p, n) \<Rightarrow>
        (case p of None \<Rightarrow> False | Some q \<Rightarrow> project_name q = name) \<or> op_project_id r = None)"

text \<open>
  \<^verbatim>\<open>SELECT DISTINCT\<close>: every row once, at the place of its first occurrence
  (\<open>remdups\<close> alone would keep the last one).
\<close>

definition sql_distinct :: "'a list \<Rightarrow> 'a list" where
  "sql_distinct xs = rev (remdups (rev xs))"

text \<open>The rows a SELECT yields, each as the list of its columns.\<close>

fun select_rows :: "Tx \<Rightarrow> statement \<Rightarrow> sql_value list \<Rightarrow> error + sql_value list list" where
  "select_rows t (Select_operations w) args =
     \<comment> \<open>\<^verbatim>\<open>SELECT operations.id, uuid, nodes.address, type FROM operations
         JOIN nodes ON nodes.id = node_id [WHERE w] ORDER BY operations.id\<close>\<close>
     (case where_filter w args of
        None \<Rightarrow> Inl (StoreError ''SQL logic error'')
      | Some f \<Rightarrow>
          Inr (concat (map (\<lambda>r. map (\<lambda>n. [SqlInt (op_id r), SqlText (op_uuid r),
                                            SqlText (node_address n), SqlInt (op_type r)])
                                      (joined_nodes t r))
                           (sort_key op_id (filter f (operations_tbl t))))))"
| "select_rows t Select_local_uuids args =
     \<comment> \<open>\<^verbatim>\<open>SELECT uuid FROM operations WHERE node_id=?\<close>\<close>
     (case args of
        [SqlInt n] \<Rightarrow>
          Inr (map (\<lambda>r. [SqlText (op_uuid r)]) (filter (\<lambda>r. op_node_id r = n) (operations_tbl t)))
      | _ \<Rightarrow> Inl (StoreError ''SQL logic error''))"
| "select_rows t Select_nodes_with_operations args =
     \<comment> \<open>\<^verbatim>\<open>SELECT DISTINCT nodes.address FROM operations
         LEFT OUTER JOIN projects ON projects.id = operations.project_id
         JOIN nodes ON nodes.id = operations.node_id
         WHERE projects.name = ? OR operations.project_id IS NULL\<close>\<close>
     (case args of
        [SqlText name] \<Rightarrow>
          Inr (sql_distinct (map (\<lambda>(r, p, n). [SqlText (node_address n)])
                            (filter (project_matches name) (from_operations_projects_nodes t))))
      | _ \<Rightarrow> Inl (StoreError ''SQL logic error''))"
| "select_rows t Select_operations_of_type args =
     \<comment> \<open>\<^verbatim>\<open>SELECT operations.id, operations.uuid, operations.type, nodes.address
         FROM operations
         LEFT JOIN projects on projects.id = operations.project_id
         JOIN nodes on nodes.id = operations.node_id
         WHERE (projects.name = ? OR operations.project_id IS NULL) and operations.type = ?\<close>\<close>
     (case args of
        [SqlText name, SqlInt ty] \<Rightarrow>
          Inr (map (\<lambda>(r, p, n). [SqlInt (op_id r), SqlText (op_uuid r),
                                  SqlInt (op_type r), SqlText (node_address n)])
                   (filter (\<lambda>j. project_matches name j \<and> op_type (fst j) = ty)
                           (from_operations_projects_nodes t)))
      | _ \<Rightarrow> Inl (StoreError ''SQL logic error''))"
| "select_rows t s args = Inl (StoreError ''SQL logic error'')"

text \<open>
  The identifier the store assigns to an inserted row: one more than every identifier
  in the table, so no identifier of an existing row is used again.
\<close>

definition fresh_id :: "operation_row list \<Rightarrow> int" where
  "fresh_id rs = fold max (map op_id rs) 0 + 1"

fun as_text :: "sql_value option \<Rightarrow> string option" where
  "as_text (Some (SqlText s)) = Some s"
| "as_text v = None"

fun as_int :: "sql_value option \<Rightarrow> int option" where
  "as_int (Some (SqlInt i)) = Some i"
| "as_int v = None"

fun as_nullable_int :: "sql_value option \<Rightarrow> int option option" where
  "as_nullable_int (Some (SqlInt i)) = Some (Some i)"
| "as_nullable_int (Some SqlNull) = Some None"
| "as_nullable_int v = None"

text \<open>
  Modelled from the spec: the statement that \<^verbatim>\<open>query.UpsertObject\<close> (package
  \<^verbatim>\<open>lxd/db/query\<close>, not among the sources) sends for the table \<open>operations\<close>,
  \<^verbatim>\<open>INSERT OR REPLACE INTO operations (columns) VALUES (?, ...)\<close>. The store enforces the
  schema: \<open>uuid\<close> is unique, so a row with the same uuid is replaced by the new row;
  \<open>node_id\<close> and a non-NULL \<open>project_id\<close> reference existing rows; the identifier is
  assigned by the store.
\<close>

definition insert_or_replace ::
  "Tx \<Rightarrow> string \<Rightarrow> string list \<Rightarrow> sql_value list \<Rightarrow> error + (result \<times> Tx)" where
  "insert_or_replace t table columns vals =
     (let m = map_of (zip columns vals) in
      if table \<noteq> ''operations'' \<or> length columns \<noteq> length vals
      then Inl (StoreError ''SQL logic error'')
      else
        (case (as_text (m ''uuid''), as_int (m ''node_id''), as_int (m ''type''),
               as_nullable_int (m ''project_id'')) of
           (Some u, Some n, Some ty, Some pid) \<Rightarrow>
             (if n \<notin> set (map node_id (nodes_tbl t))
                 \<or> (case pid of None \<Rightarrow> False | Some q \<Rightarrow> q \<notin> set (map project_id (projects_tbl t)))
              then Inl (StoreError ''FOREIGN KEY constraint failed'')
              else
                (let new = fresh_id (operations_tbl t) in
                 Inr (\<lparr>rows_affected = 1, last_insert_id = new\<rparr>,
                      t\<lparr>operations_tbl :=
                          filter (\<lambda>r. op_uuid r \<noteq> u) (operations_tbl t)
                          @ [\<lparr>op_id = new, op_uuid = u, op_node_id = n, op_type = ty,
                              op_project_id = pid\<rparr>]\<rparr>)))
         | _ \<Rightarrow> Inl (StoreError ''datatype mismatch'')))"

text \<open>What a statement run by \<^verbatim>\<open>Exec\<close> does to the tables.\<close>

fun exec_stmt :: "Tx \<Rightarrow> statement \<Rightarrow> sql_value list \<Rightarrow> error + (result \<times> Tx)" where
  "exec_stmt t Delete_operation_by_uuid args =
     \<comment> \<open>\<^verbatim>\<open>DELETE FROM operations WHERE uuid=?\<close>\<close>
     (case args of
        [SqlText u] \<Rightarrow>
          Inr (\<lparr>rows_affected = int (length (filter (\<lambda>r. op_uuid r = u) (operations_tbl t))),
                last_insert_id = 0\<rparr>,
               t\<lparr>operations_tbl := filter (\<lambda>r. op_uuid r \<noteq> u) (operations_tbl t)\<rparr>)
      | _ \<Rightarrow> Inl (StoreError ''SQL logic error''))"
| "exec_stmt t Delete_operations_by_node args =
     \<comment> \<open>\<^verbatim>\<open>DELETE FROM operations WHERE node_id=?\<close>\<close>
     (case args of
        [SqlInt n] \<Rightarrow>
          Inr (\<lparr>rows_affected = int (length (filter (\<lambda>r. op_node_id r = n) (operations_tbl t))),
                last_insert_id = 0\<rparr>,
               t\<lparr>operations_tbl := filter (\<lambda>r. op_node_id r \<noteq> n) (operations_tbl t)\<rparr>)
      | _ \<Rightarrow> Inl (StoreError ''SQL logic error''))"
| "exec_stmt t (Insert_or_replace table columns) args = insert_or_replace t table columns args"
| "exec_stmt t s args = Inl (StoreError ''SQL logic error'')"

subsection \<open>The calls of database/sql\<close>

text \<open>
  \<^verbatim>\<open>tx.Prepare\<close>: a failure of the store, or a statement the store cannot compile, is
  reported here. With the fragment \<^verbatim>\<open>id=?\<close> the statement of \<^verbatim>\<open>operations\<close> reads
  \<^verbatim>\<open>... FROM operations JOIN nodes ON nodes.id = node_id WHERE id=? ORDER BY operations.id\<close>,
  where \<open>id\<close> names a column of both tables: the store answers
  \<^verbatim>\<open>ambiguous column name: id\<close>.
\<close>

definition tx_Prepare :: "Tx \<Rightarrow> statement \<Rightarrow> error + statement" where
  "tx_Prepare t s =
     (case fail t Prepare of
        Some e \<Rightarrow> Inl e
      | None \<Rightarrow>
          (case s of
             Select_operations w \<Rightarrow>
               if w = ''id=?'' then Inl (StoreError ''ambiguous column name: id'')
               else if w = [] \<or> w = ''node_id=?'' \<or> w = ''uuid=?'' then Inr s
               else Inl (StoreError ''SQL logic error'')
           | _ \<Rightarrow> Inr s))"

text \<open>
  \<^verbatim>\<open>tx.Query\<close> and \<^verbatim>\<open>stmt.Query\<close>: the rows that \<^verbatim>\<open>rows.Next()\<close> will deliver,
  with the value of \<^verbatim>\<open>rows.Err()\<close> once it has returned false.
\<close>

type_synonym rows = "sql_value list list \<times> error option"

definition tx_Query :: "Tx \<Rightarrow> statement \<Rightarrow> sql_value list \<Rightarrow> error + rows" where
  "tx_Query t s args =
     (case fail t Query of
        Some e \<Rightarrow> Inl e
      | None \<Rightarrow>
          (case select_rows t s args of
             Inl e \<Rightarrow> Inl e
           | Inr rs \<Rightarrow>
               (case rows_err t of
                  None \<Rightarrow> Inr (rs, None)
                | Some (k, e) \<Rightarrow> Inr (take k rs, Some e))))"

text \<open>
  \<^verbatim>\<open>rows.Scan(dest...)\<close>: \<open>ptrs\<close> stands for the destination pointers; it converts
  the columns of the row and stores them, and is undefined (\<open>None\<close>) on columns it
  cannot convert.
\<close>

definition rows_Scan :: "Tx \<Rightarrow> (sql_value list \<Rightarrow> 'a option) \<Rightarrow> sql_value list \<Rightarrow> error + 'a" where
  "rows_Scan t ptrs row =
     (case fail t Scan of
        Some e \<Rightarrow> Inl e
      | None \<Rightarrow> (case ptrs row of None \<Rightarrow> Inl (StoreError ''Scan error'') | Some v \<Rightarrow> Inr v))"

definition tx_Exec :: "Tx \<Rightarrow> statement \<Rightarrow> sql_value list \<Rightarrow> error + (result \<times> Tx)" where
  "tx_Exec t s args = (case fail t Exec of Some e \<Rightarrow> Inl e | None \<Rightarrow> exec_stmt t s args)"

definition result_RowsAffected :: "Tx \<Rightarrow> result \<Rightarrow> error + int" where
  "result_RowsAffected t res =
     (case fail t RowsAffected of Some e \<Rightarrow> Inl e | None \<Rightarrow> Inr (rows_affected res))"

definition result_LastInsertId :: "Tx \<Rightarrow> result \<Rightarrow> error + int" where
  "result_LastInsertId t res =
     (case fail t LastInsertId of Some e \<Rightarrow> Inl e | None \<Rightarrow> Inr (last_insert_id res))"

subsection \<open>The helpers of package query\<close>

text \<open>Scanning one text column into a Go string.\<close>

fun scan_string :: "sql_value list \<Rightarrow> string option" where
  "scan_string [SqlText s] = Some s"
| "scan_string row = None"

fun scan_strings :: "Tx \<Rightarrow> sql_value list list \<Rightarrow> string list \<Rightarrow> string list \<times> error option" where
  "scan_strings t [] vs = (vs, None)"
| "scan_strings t (row # rest) vs =
     (case rows_Scan t scan_string row of
        Inl err \<Rightarrow> (vs, Some err)
      | Inr v \<Rightarrow> scan_strings t rest (vs @ [v]))"

text \<open>
  Modelled from the spec: \<^verbatim>\<open>query.SelectStrings\<close> (package \<^verbatim>\<open>lxd/db/query\<close>, not among
  the sources) runs the statement and returns its single text column, one string per row;
  an error of the store at any point is returned, with a nil slice.
\<close>

definition SelectStrings :: "Tx \<Rightarrow> statement \<Rightarrow> sql_value list \<Rightarrow> string list option \<times> error option" where
  "SelectStrings t stmt args =
     (case tx_Query t stmt args of
        Inl err \<Rightarrow> (None, Some err)
      | Inr rows \<Rightarrow>
          (case scan_strings t (fst rows) [] of
             (vs, Some err) \<Rightarrow> (None, Some err)
           | (vs, None) \<Rightarrow>
               (case snd rows of
                  Some err \<Rightarrow> (None, Some err)
                | None \<Rightarrow> (Some vs, None))))"

text \<open>
  The loop of \<^verbatim>\<open>query.SelectObjects\<close>: for the \<open>i\<close>-th row, \<open>dest i\<close> prepares the
  destination (it may change the caller's state \<open>s\<close>, as a closure does) and returns the
  pointers the row is scanned into.
\<close>

fun select_objects_loop ::
  "Tx \<Rightarrow> (nat \<Rightarrow> 's \<Rightarrow> 's \<times> (sql_value list \<Rightarrow> 's option)) \<Rightarrow> nat \<Rightarrow> sql_value list list \<Rightarrow> 's
     \<Rightarrow> 's \<times> error option" where
  "select_objects_loop t dest i [] s = (s, None)"
| "select_objects_loop t dest i (row # rest) s =
     (case dest i s of
        (s1, ptrs) \<Rightarrow>
          (case rows_Scan t ptrs row of
             Inl err \<Rightarrow> (s1, Some err)
           | Inr s2 \<Rightarrow> select_objects_loop t dest (Suc i) rest s2))"

text \<open>
  Modelled from the spec: \<^verbatim>\<open>query.SelectObjects\<close> (package \<^verbatim>\<open>lxd/db/query\<close>, not among
  the sources) runs the prepared statement and scans every row into the destination that
  \<open>dest\<close> gives for it; an error of the store at any point is returned.
\<close>

definition SelectObjects ::
  "Tx \<Rightarrow> statement \<Rightarrow> (nat \<Rightarrow> 's \<Rightarrow> 's \<times> (sql_value list \<Rightarrow> 's option)) \<Rightarrow> 's \<Rightarrow> sql_value list
     \<Rightarrow> 's \<times> error option" where
  "SelectObjects t stmt dest s args =
     (case tx_Query t stmt args of
        Inl err \<Rightarrow> (s, Some err)
      | Inr rows \<Rightarrow>
          (case select_objects_loop t dest 0 (fst rows) s of
             (s', Some err) \<Rightarrow> (s', Some err)
           | (s', None) \<Rightarrow> (s', snd rows)))"

text \<open>
  Modelled from the spec: \<^verbatim>\<open>query.UpsertObject\<close> (package \<^verbatim>\<open>lxd/db/query\<close>, not among
  the sources) performs the upsert of the given columns and returns the surrogate key of
  the affected row, or -1 and the error of the store.
\<close>

definition UpsertObject ::
  "Tx \<Rightarrow> string \<Rightarrow> string list \<Rightarrow> sql_value list \<Rightarrow> (int \<times> error option) \<times> Tx" where
  "UpsertObject t table columns vals =
     (case tx_Exec t (Insert_or_replace table columns) vals of
        Inl err \<Rightarrow> ((- 1, Some err), t)
      | Inr (res, t') \<Rightarrow>
          (case result_LastInsertId t' res of
             Inl err \<Rightarrow> ((- 1, Some err), t')
           | Inr new \<Rightarrow> ((new, None), t')))"

text \<open>
  Modelled from the spec: \<^verbatim>\<open>GetProjectID\<close> (file \<^verbatim>\<open>lxd/db/projects.go\<close>, not among the
  sources) resolves a project name to its identifier, and fails with
  \<open>ErrNoSuchObject\<close> when the name does not resolve.
\<close>

definition GetProjectID :: "ClusterTx \<Rightarrow> string \<Rightarrow> int \<times> error option" where
  "GetProjectID c name =
     (case fail (tx c) Query of
        Some err \<Rightarrow> (- 1, Some err)
      | None \<Rightarrow>
          (case find (\<lambda>p. project_name p = name) (projects_tbl (tx c)) of
             None \<Rightarrow> (- 1, Some ErrNoSuchObject)
           | Some p \<Rightarrow> (project_id p, None)))"

section \<open>The accessors of operations.go\<close>

text \<open>
  A Go slice result is a \<open>list option\<close>: \<open>None\<close> is the nil slice, \<open>Some []\<close> the
  empty slice \<^verbatim>\<open>[]Operation{}\<close>. The accessors that only read return their results;
  those that write return the transaction as well.
\<close>

text \<open>\<^verbatim>\<open>rows.Scan\<close> into \<^verbatim>\<open>ID, UUID, NodeAddress, Type\<close>, the column order of \<^verbatim>\<open>operations\<close>.\<close>

fun scan_id_uuid_address_type :: "sql_value list \<Rightarrow> Operation option" where
  "scan_id_uuid_address_type [SqlInt i, SqlText u, SqlText a, SqlInt ty] =
     Some \<lparr>ID = i, UUID = u, NodeAddress = a, Type = ty\<rparr>"
| "scan_id_uuid_address_type row = None"

text \<open>\<^verbatim>\<open>rows.Scan(&op.ID, &op.UUID, &op.Type, &op.NodeAddress)\<close> of \<^verbatim>\<open>GetOperationsOfType\<close>.\<close>

fun scan_id_uuid_type_address :: "sql_value list \<Rightarrow> Operation option" where
  "scan_id_uuid_type_address [SqlInt i, SqlText u, SqlInt ty, SqlText a] =
     Some \<lparr>ID = i, UUID = u, NodeAddress = a, Type = ty\<rparr>"
| "scan_id_uuid_type_address row = None"

text \<open>
  The closure \<^verbatim>\<open>dest\<close> of \<^verbatim>\<open>operations\<close>: it appends a zero \<^verbatim>\<open>Operation\<close> to the
  captured slice and returns the addresses of the fields of \<^verbatim>\<open>operations[i]\<close>.
  (\<^verbatim>\<open>SelectObjects\<close> calls it with \<open>i\<close> the length of the slice before the append, so the
  index is in range.)
\<close>

definition operations_dest ::
  "nat \<Rightarrow> Operation list \<Rightarrow> Operation list \<times> (sql_value list \<Rightarrow> Operation list option)" where
  "operations_dest i ops =
     (let ops1 = ops @ [null_Operation]
      in (ops1, \<lambda>row. map_option (\<lambda>v. ops1[i := v]) (scan_id_uuid_address_type row)))"

text \<open>\<^verbatim>\<open>func (c *ClusterTx) operations(where string, args ...interface{})\<close>\<close>

definition operations :: "ClusterTx \<Rightarrow> string \<Rightarrow> sql_value list \<Rightarrow> Operation list option \<times> error option" where
  "operations c wh args =
     (case tx_Prepare (tx c) (Select_operations wh) of
        Inl err \<Rightarrow> (None, Some err)
      | Inr stmt \<Rightarrow>
          (case SelectObjects (tx c) stmt operations_dest [] args of
             (ops, Some err) \<Rightarrow> (None, Some (Wrap err ''Failed to fetch operations''))
           | (ops, None) \<Rightarrow> (Some ops, None)))"

definition GetLocalOperations :: "ClusterTx \<Rightarrow> Operation list option \<times> error option" where
  "GetLocalOperations c = operations c ''node_id=?'' [SqlInt (nodeID c)]"


definition GetNodesWithRunningOperations :: "ClusterTx \<Rightarrow> string \<Rightarrow> string list option \<times> error option" where
  "GetNodesWithRunningOperations c project =
     SelectStrings (tx c) Select_nodes_with_operations [SqlText project]"

text \<open>
  The loop of \<^verbatim>\<open>GetOperationsOfType\<close>; \<open>Inl err\<close> is its early \<^verbatim>\<open>return nil, err\<close>.
  The slice \<^verbatim>\<open>ops\<close> is nil until the first append.
\<close>

fun GetOperationsOfType_loop ::
  "Tx \<Rightarrow> sql_value list list \<Rightarrow> Operation list option \<Rightarrow> error + Operation list option" where
  "GetOperationsOfType_loop t [] ops = Inr ops"
| "GetOperationsOfType_loop t (row # rest) ops =
     (case rows_Scan t scan_id_uuid_type_address row of
        Inl err \<Rightarrow> Inl err
      | Inr v \<Rightarrow> GetOperationsOfType_loop t rest (Some ((case ops of None \<Rightarrow> [] | Some xs \<Rightarrow> xs) @ [v])))"

text \<open>
  In the source, the variable \<^verbatim>\<open>err\<close> of the loop body is a new one
  (\<^verbatim>\<open>err := rows.Scan(...)\<close>); the \<^verbatim>\<open>err\<close> returned after the loop, when
  \<^verbatim>\<open>rows.Err() != nil\<close>, is the one assigned by \<^verbatim>\<open>c.tx.Query\<close>, which is nil there.
\<close>

definition GetOperationsOfType ::
  "ClusterTx \<Rightarrow> string \<Rightarrow> OperationType \<Rightarrow> Operation list option \<times> error option" where
  "GetOperationsOfType c projectName opType =
     (case tx_Query (tx c) Select_operations_of_type [SqlText projectName, SqlInt opType] of
        Inl err \<Rightarrow> (None, Some err)
      | Inr rows \<Rightarrow>
          (let err = None in
           case GetOperationsOfType_loop (tx c) (fst rows) None of
             Inl err1 \<Rightarrow> (None, Some err1)
           | Inr ops \<Rightarrow> if snd rows \<noteq> None then (None, err) else (ops, None)))"

text \<open>
  \<^verbatim>\<open>GetOperationWithID\<close> and \<^verbatim>\<open>GetOperationByUUID\<close>: the \<^verbatim>\<open>switch len(operations)\<close>.
\<close>

definition GetOperationWithID :: "ClusterTx \<Rightarrow> int \<Rightarrow> Operation \<times> error option" where
  "GetOperationWithID c opID =
     (let null = null_Operation in
      case operations c ''id=?'' [SqlInt opID] of
        (ops, Some err) \<Rightarrow> (null, Some err)
      | (ops, None) \<Rightarrow>
          (case (case ops of None \<Rightarrow> [] | Some xs \<Rightarrow> xs) of
             [] \<Rightarrow> (null, Some ErrNoSuchObject)
           | [x] \<Rightarrow> (x, None)
           | _ \<Rightarrow> (null, Some (Errorf ''More than one operation matches''))))"

definition GetOperationByUUID :: "ClusterTx \<Rightarrow> string \<Rightarrow> Operation \<times> error option" where
  "GetOperationByUUID c uuid =
     (let null = null_Operation in
      case operations c ''uuid=?'' [SqlText uuid] of
        (ops, Some err) \<Rightarrow> (null, Some err)
      | (ops, None) \<Rightarrow>
          (case (case ops of None \<Rightarrow> [] | Some xs \<Rightarrow> xs) of
             [] \<Rightarrow> (null, Some ErrNoSuchObject)
           | [x] \<Rightarrow> (x, None)
           | _ \<Rightarrow> (null, Some (Errorf ''More than one operation matches''))))"

definition CreateOperation ::
  "ClusterTx \<Rightarrow> string \<Rightarrow> string \<Rightarrow> OperationType \<Rightarrow> (int \<times> error option) \<times> ClusterTx" where
  "CreateOperation c project uuid typ =
     (case (if project \<noteq> []
            then (case GetProjectID c project of
                    (pid, Some err) \<Rightarrow> Inl err
                  | (pid, None) \<Rightarrow> Inr (SqlInt pid))
            else Inr SqlNull) of
        Inl err \<Rightarrow> ((- 1, Some (Wrap err ''Fetch project ID'')), c)
      | Inr projectID \<Rightarrow>
          (let columns = [''uuid'', ''node_id'', ''type'', ''project_id''];
               vals = [SqlText uuid, SqlInt (nodeID c), SqlInt typ, projectID]
           in case UpsertObject (tx c) ''operations'' columns vals of
                (r, t') \<Rightarrow> (r, c\<lparr>tx := t'\<rparr>)))"

definition RemoveOperation :: "ClusterTx \<Rightarrow> string \<Rightarrow> error option \<times> ClusterTx" where
  "RemoveOperation c uuid =
     (case tx_Exec (tx c) Delete_operation_by_uuid [SqlText uuid] of
        Inl err \<Rightarrow> (Some err, c)
      | Inr (res, t') \<Rightarrow>
          (case result_RowsAffected t' res of
             Inl err \<Rightarrow> (Some err, c\<lparr>tx := t'\<rparr>)
           | Inr n \<Rightarrow>
               if n \<noteq> 1
               then (Some (Errorf (''query deleted '' @ string_of_int n @ '' rows instead of 1'')),
                     c\<lparr>tx := t'\<rparr>)
               else (None, c\<lparr>tx := t'\<rparr>)))"

definition removeNodeOperations :: "ClusterTx \<Rightarrow> int \<Rightarrow> error option \<times> ClusterTx" where
  "removeNodeOperations c nid =
     (case tx_Exec (tx c) Delete_operations_by_node [SqlInt nid] of
        Inl err \<Rightarrow> (Some err, c)
      | Inr (res, t') \<Rightarrow> (None, c\<lparr>tx := t'\<rparr>))"

section \<open>States of the store\<close>

text \<open>The store reports no failure to any call.\<close>

definition store_ok :: "Tx \<Rightarrow> bool" where
  "store_ok t \<longleftrightarrow>
     fail t Prepare = None \<and> fail t Query = None \<and> fail t Scan = None \<and> fail t Exec = None \<and>
     fail t RowsAffected = None \<and> fail t LastInsertId = None \<and> rows_err t = None"

text \<open>
  The foreign key of \<open>node_id\<close> with the key of \<open>nodes\<close>: every operation row has
  its node row, and only one.
\<close>

definition nodes_resolve :: "Tx \<Rightarrow> bool" where
  "nodes_resolve t \<longleftrightarrow> (\<forall>r \<in> set (operations_tbl t). length (joined_nodes t r) = 1)"

text \<open>The \<^verbatim>\<open>Operation\<close> that stands for an operation row and the row of its node.\<close>

definition Operation_of :: "operation_row \<Rightarrow> node_row \<Rightarrow> Operation" where
  "Operation_of r n = \<lparr>ID = op_id r, UUID = op_uuid r, NodeAddress = node_address n, Type = op_type r\<rparr>"

text \<open>
  What can happen to the tables: the three functions of this file that write, whether they
  succeed or not, under any node identity and any behaviour of the store, and changes of
  the tables \<open>nodes\<close> and \<open>projects\<close>, which are owned elsewhere. The reachable
  states are those that a sequence of such actions produces from an empty operations
  table.
\<close>

datatype action =
    Create string string OperationType
  | Remove string
  | RemoveNode int
  | Context int "call \<Rightarrow> error option" "(nat \<times> error) option"
  | Tables "node_row list" "project_row list"

fun step :: "ClusterTx \<Rightarrow> action \<Rightarrow> ClusterTx" where
  "step c (Create project uuid ty) = snd (CreateOperation c project uuid ty)"
| "step c (Remove uuid) = snd (RemoveOperation c uuid)"
| "step c (RemoveNode nid) = snd (removeNodeOperations c nid)"
| "step c (Context n f e) = c\<lparr>tx := (tx c)\<lparr>fail := f, rows_err := e\<rparr>, nodeID := n\<rparr>"
| "step c (Tables ns ps) = c\<lparr>tx := (tx c)\<lparr>nodes_tbl := ns, projects_tbl := ps\<rparr>\<rparr>"

definition run :: "ClusterTx \<Rightarrow> action list \<Rightarrow> ClusterTx" where
  "run c acts = foldl step c acts"

subsection \<open>A small cluster\<close>

definition example_nodes :: "node_row list" where
  "example_nodes =
     [\<lparr>node_id = 1, node_address = ''10.0.0.1''\<rparr>, \<lparr>node_id = 2, node_address = ''10.0.0.2''\<rparr>]"

definition example_projects :: "project_row list" where
  "example_projects =
     [\<lparr>project_id = 1, project_name = ''default''\<rparr>, \<lparr>project_id = 2, project_name = ''other''\<rparr>]"

definition no_failure :: "call \<Rightarrow> error option" where
  "no_failure c = None"

text \<open>A transaction of node \<open>n\<close> on the operation rows \<open>rs\<close>, with a store that works.\<close>

definition example_ctx :: "operation_row list \<Rightarrow> int \<Rightarrow> ClusterTx" where
  "example_ctx rs n =
     \<lparr>tx = \<lparr>operations_tbl = rs, nodes_tbl = example_nodes, projects_tbl = example_projects,
             fail = no_failure, rows_err = None\<rparr>,
      nodeID = n\<rparr>"

text \<open>The same, with a row iteration that breaks after \<open>k\<close> rows.\<close>

definition broken_iteration_ctx :: "operation_row list \<Rightarrow> int \<Rightarrow> nat \<Rightarrow> ClusterTx" where
  "broken_iteration_ctx rs n k =
     \<lparr>tx = \<lparr>operations_tbl = rs, nodes_tbl = example_nodes, projects_tbl = example_projects,
             fail = no_failure, rows_err = Some (k, StoreError ''connection lost'')\<rparr>,
      nodeID = n\<rparr>"



definition row_a :: operation_row where
  "row_a = \<lparr>op_id = 1, op_uuid = ''abc-1'', op_node_id = 1, op_type = 7, op_project_id = None\<rparr>"

definition row_b :: operation_row where
  "row_b = \<lparr>op_id = 2, op_uuid = ''abc-2'', op_node_id = 2, op_type = 7, op_project_id = Some 1\<rparr>"

definition row_c :: operation_row where
  "row_c = \<lparr>op_id = 3, op_uuid = ''abc-3'', op_node_id = 1, op_type = 7, op_project_id = Some 2\<rparr>"

text \<open>
  The operation rows that satisfy \<open>f\<close>, in the order of their identifiers, each joined
  with its node rows.
\<close>

definition joined_operations :: "Tx \<Rightarrow> (operation_row \<Rightarrow> bool) \<Rightarrow> Operation list" where
  "joined_operations t f =
     concat (map (\<lambda>r. map (Operation_of r) (joined_nodes t r))
                 (sort_key op_id (filter f (operations_tbl t))))"

text \<open>The upsert that \<^verbatim>\<open>CreateOperation\<close> asks for, with the project already resolved.\<close>

definition upserted :: "Tx \<Rightarrow> string \<Rightarrow> int \<Rightarrow> int \<Rightarrow> int option \<Rightarrow> Tx" where
  "upserted t u n ty pid =
     t\<lparr>operations_tbl :=
         filter (\<lambda>r. op_uuid r \<noteq> u) (operations_tbl t)
         @ [\<lparr>op_id = fresh_id (operations_tbl t), op_uuid = u, op_node_id = n, op_type = ty,
             op_project_id = pid\<rparr>]\<rparr>"

section \<open>Properties\<close>

lemmas example_defs =
  example_ctx_def broken_iteration_ctx_def example_nodes_def example_projects_def
  no_failure_def row_a_def row_b_def row_c_def

subsection \<open>What the filtered query returns\<close>

lemma select_objects_loop_operations:
  assumes "fail t Scan = None"
    and "\<forall>row \<in> set rs. scan_id_uuid_address_type row \<noteq> None"
  shows "select_objects_loop t operations_dest (length acc) rs acc =
           (acc @ map (\<lambda>row. the (scan_id_uuid_address_type row)) rs, None)"
  using assms(2)
proof (induction rs arbitrary: acc)
  case Nil
  then show ?case by simp
next
  case (Cons row rs)
  from Cons.prems obtain v where v: "scan_id_uuid_address_type row = Some v"
    by auto
  have step: "select_objects_loop t operations_dest (length acc) (row # rs) acc =
          select_objects_loop t operations_dest (length (acc @ [v])) rs (acc @ [v])"
    using assms(1) v by (simp add: operations_dest_def rows_Scan_def Let_def)
  show ?case
    using Cons.IH [of "acc @ [v]"] Cons.prems v unfolding step by simp
qed


lemma scan_joined_rows:
  "map (\<lambda>row. the (scan_id_uuid_address_type row))
     (concat (map (\<lambda>r. map (\<lambda>n. [SqlInt (op_id r), SqlText (op_uuid r),
                                            SqlText (node_address n), SqlInt (op_type r)])
                                      (joined_nodes t r)) rs))
   = concat (map (\<lambda>r. map (Operation_of r) (joined_nodes t r)) rs)"
  by (induction rs) (simp_all add: Operation_of_def)

lemma where_filter_known:
  "where_filter w args = Some f \<Longrightarrow> w = [] \<or> w = ''node_id=?'' \<or> w = ''uuid=?''"
  by (auto simp: where_filter_def split: if_splits)

lemma operations_ok:
  assumes ok: "store_ok (tx c)" and w: "where_filter w args = Some f"
  shows "operations c w args = (Some (joined_operations (tx c) f), None)"
proof -
  let ?rows = "concat (map (\<lambda>r. map (\<lambda>n. [SqlInt (op_id r), SqlText (op_uuid r),
                                            SqlText (node_address n), SqlInt (op_type r)])
                                      (joined_nodes (tx c) r))
                           (sort_key op_id (filter f (operations_tbl (tx c)))))"
  have prep: "tx_Prepare (tx c) (Select_operations w) = Inr (Select_operations w)"
    using ok where_filter_known [OF w] by (auto simp: tx_Prepare_def store_ok_def)
  have q: "tx_Query (tx c) (Select_operations w) args = Inr (?rows, None)"
    using ok w by (simp add: tx_Query_def store_ok_def)
  have scannable: "\<forall>row \<in> set ?rows. scan_id_uuid_address_type row \<noteq> None"
    by auto
  have loop: "select_objects_loop (tx c) operations_dest 0 ?rows [] =
      (joined_operations (tx c) f, None)"
    using select_objects_loop_operations [of "tx c" ?rows "[]"] ok scannable
    by (simp add: store_ok_def scan_joined_rows joined_operations_def del: set_concat)
  show ?thesis
    by (simp add: operations_def prep SelectObjects_def q loop)
qed

lemma joined_operations_resolved:
  assumes "nodes_resolve t"
  shows "joined_operations t f =
           map (\<lambda>r. Operation_of r (hd (joined_nodes t r))) (sort_key op_id (filter f (operations_tbl t)))"
proof -
  have one: "map (Operation_of r) (joined_nodes t r) = [Operation_of r (hd (joined_nodes t r))]"
    if "r \<in> set (operations_tbl t)" for r
  proof -
    from assms that have "length (joined_nodes t r) = 1"
      by (simp add: nodes_resolve_def)
    then obtain n where "joined_nodes t r = [n]"
      by (cases "joined_nodes t r") auto
    then show ?thesis by simp
  qed
  have "concat (map (\<lambda>r. map (Operation_of r) (joined_nodes t r)) rs) =
          map (\<lambda>r. Operation_of r (hd (joined_nodes t r))) rs"
    if "set rs \<subseteq> set (operations_tbl t)" for rs
    using that by (induction rs) (simp_all add: one)
  then show ?thesis
    by (simp add: joined_operations_def)
qed

lemma hd_joined_nodes:
  assumes "nodes_resolve t" "r \<in> set (operations_tbl t)"
  shows "hd (joined_nodes t r) \<in> set (nodes_tbl t) \<and> node_id (hd (joined_nodes t r)) = op_node_id r"
proof -
  from assms have "length (joined_nodes t r) = 1"
    by (simp add: nodes_resolve_def)
  then obtain n where n: "joined_nodes t r = [n]"
    by (cases "joined_nodes t r") auto
  then have "n \<in> set (filter (\<lambda>n. node_id n = op_node_id r) (nodes_tbl t))"
    by (simp add: joined_nodes_def)
  with n show ?thesis by simp
qed

lemma where_filter_uuid: "where_filter ''uuid=?'' [SqlText u] = Some (\<lambda>r. op_uuid r = u)"
  by (simp add: where_filter_def)

lemma where_filter_node_id: "where_filter ''node_id=?'' [SqlInt i] = Some (\<lambda>r. op_node_id r = i)"
  by (simp add: where_filter_def)

lemma operations_id_ambiguous:
  "operations c ''id=?'' args =
     (None, Some (case fail (tx c) Prepare of
                    Some e \<Rightarrow> e
                  | None \<Rightarrow> StoreError ''ambiguous column name: id''))"
  by (simp add: operations_def tx_Prepare_def split: option.splits)

lemma GetOperationWithID_ambiguous:
  "GetOperationWithID c opID =
     (null_Operation, Some (case fail (tx c) Prepare of
                              Some e \<Rightarrow> e
                            | None \<Rightarrow> StoreError ''ambiguous column name: id''))"
  by (simp add: GetOperationWithID_def operations_id_ambiguous)

lemma GetOperationByUUID_ok:
  assumes "store_ok (tx c)"
  shows "GetOperationByUUID c uuid =
           (case joined_operations (tx c) (\<lambda>r. op_uuid r = uuid) of
              [] \<Rightarrow> (null_Operation, Some ErrNoSuchObject)
            | [x] \<Rightarrow> (x, None)
            | _ \<Rightarrow> (null_Operation, Some (Errorf ''More than one operation matches'')))"
  by (simp add: GetOperationByUUID_def operations_ok [OF assms where_filter_uuid])

lemma single_match_outcome:
  fixes a d :: "Operation \<times> error option"
  assumes res: "nodes_resolve t"
  shows "(filter f (operations_tbl t) = [] \<longrightarrow>
            (case joined_operations t f of [] \<Rightarrow> a | [x] \<Rightarrow> (x, None) | _ \<Rightarrow> d) = a)
       \<and> (\<forall>r. filter f (operations_tbl t) = [r] \<longrightarrow>
            (\<exists>n \<in> set (nodes_tbl t). node_id n = op_node_id r \<and>
               (case joined_operations t f of [] \<Rightarrow> a | [x] \<Rightarrow> (x, None) | _ \<Rightarrow> d)
                 = (Operation_of r n, None)))
       \<and> (1 < length (filter f (operations_tbl t)) \<longrightarrow>
            (case joined_operations t f of [] \<Rightarrow> a | [x] \<Rightarrow> (x, None) | _ \<Rightarrow> d) = d)"
proof (intro conjI allI impI)
  assume "filter f (operations_tbl t) = []"
  then show "(case joined_operations t f of [] \<Rightarrow> a | [x] \<Rightarrow> (x, None) | _ \<Rightarrow> d) = a"
    by (simp add: joined_operations_resolved [OF res])
next
  fix r
  assume r: "filter f (operations_tbl t) = [r]"
  then have "r \<in> set (filter f (operations_tbl t))" by simp
  then have "r \<in> set (operations_tbl t)" by simp
  from hd_joined_nodes [OF res this]
  have "hd (joined_nodes t r) \<in> set (nodes_tbl t)"
    and "node_id (hd (joined_nodes t r)) = op_node_id r" by simp_all
  moreover have "(case joined_operations t f of [] \<Rightarrow> a | [x] \<Rightarrow> (x, None) | _ \<Rightarrow> d)
                 = (Operation_of r (hd (joined_nodes t r)), None)"
    using r by (simp add: joined_operations_resolved [OF res])
  ultimately show "\<exists>n \<in> set (nodes_tbl t). node_id n = op_node_id r \<and>
               (case joined_operations t f of [] \<Rightarrow> a | [x] \<Rightarrow> (x, None) | _ \<Rightarrow> d)
                 = (Operation_of r n, None)"
    by blast
next
  assume "1 < length (filter f (operations_tbl t))"
  then have "1 < length (joined_operations t f)"
    by (simp add: joined_operations_resolved [OF res])
  then show "(case joined_operations t f of [] \<Rightarrow> a | [x] \<Rightarrow> (x, None) | _ \<Rightarrow> d) = d"
    by (cases "joined_operations t f"; cases "tl (joined_operations t f)") auto
qed

lemma example_store_ok: "store_ok (tx (example_ctx rs n))"
  by (simp add: store_ok_def example_ctx_def no_failure_def)

lemma example_nodes_resolve:
  "\<forall>r \<in> set rs. op_node_id r = 1 \<or> op_node_id r = 2 \<Longrightarrow> nodes_resolve (tx (example_ctx rs n))"
  by (auto simp: nodes_resolve_def joined_nodes_def example_ctx_def example_nodes_def)

subsection \<open>Errors of the store\<close>

text \<open>
  Claim C1. Every failure of the store is to be surfaced: \<^verbatim>\<open>GetOperationsOfType\<close> should
  never return a nil error when the row iteration ended with an error. The code does so:
  on a transaction whose iteration breaks after its first row with the error
  \<open>connection lost\<close>, while \<^verbatim>\<open>Query\<close> and \<^verbatim>\<open>Scan\<close> succeed, it returns a nil slice
  and a nil error.
\<close>

theorem GetOperationsOfType_swallows_rows_err:
  "rows_err (tx (broken_iteration_ctx [row_a, row_b] 1 1)) = Some (1, StoreError ''connection lost'')
   \<and> GetOperationsOfType (broken_iteration_ctx [row_a, row_b] 1 1) ''default'' 7 = (None, None)"
  by (simp add: GetOperationsOfType_def tx_Query_def example_defs
      from_operations_projects_nodes_def joined_nodes_def left_joined_projects_def
      project_matches_def rows_Scan_def)

subsection \<open>Fetching one operation\<close>

text \<open>
  What \<^verbatim>\<open>GetOperationByUUID\<close> returns when the store works and every operation row has
  its node row: the operation of the single row with the uuid, \<open>ErrNoSuchObject\<close> when
  no row has it, and another error when several rows have it.
\<close>

lemma GetOperationByUUID_single:
  assumes "store_ok (tx c)" and "nodes_resolve (tx c)"
  shows
    "(filter (\<lambda>r. op_uuid r = uuid) (operations_tbl (tx c)) = [] \<longrightarrow>
        GetOperationByUUID c uuid = (null_Operation, Some ErrNoSuchObject))
   \<and> (\<forall>r. filter (\<lambda>r. op_uuid r = uuid) (operations_tbl (tx c)) = [r] \<longrightarrow>
        (\<exists>n \<in> set (nodes_tbl (tx c)). node_id n = op_node_id r \<and>
           GetOperationByUUID c uuid = (Operation_of r n, None)))
   \<and> (1 < length (filter (\<lambda>r. op_uuid r = uuid) (operations_tbl (tx c))) \<longrightarrow>
        GetOperationByUUID c uuid = (null_Operation, Some (Errorf ''More than one operation matches'')))"
  using single_match_outcome [OF assms(2), of "\<lambda>r. op_uuid r = uuid"
          "(null_Operation, Some ErrNoSuchObject)"
          "(null_Operation, Some (Errorf ''More than one operation matches''))"]
  unfolding GetOperationByUUID_ok [OF assms(1)]
  by simp

text \<open>
  Claim C3. \<^verbatim>\<open>GetOperationWithID\<close> and \<^verbatim>\<open>GetOperationByUUID\<close> are to return the single
  matching operation, \<open>ErrNoSuchObject\<close> when no row matches, and another error when
  several match. \<^verbatim>\<open>GetOperationByUUID\<close> does. \<^verbatim>\<open>GetOperationWithID\<close> does not: its
  predicate \<^verbatim>\<open>id=?\<close> is ambiguous in the joined statement of \<^verbatim>\<open>operations\<close>, the store
  refuses the statement, and the error of the store is returned whatever the table holds:
  with exactly one row of identifier 2, and with no row of identifier 9, on a store that
  works.
\<close>

theorem GetOperationWithID_ambiguous_id:
  "filter (\<lambda>r. op_id r = 2) (operations_tbl (tx (example_ctx [row_a, row_b, row_c] 1))) = [row_b]
   \<and> GetOperationWithID (example_ctx [row_a, row_b, row_c] 1) 2
       = (null_Operation, Some (StoreError ''ambiguous column name: id''))
   \<and> filter (\<lambda>r. op_id r = 9) (operations_tbl (tx (example_ctx [row_a, row_b, row_c] 1))) = []
   \<and> GetOperationWithID (example_ctx [row_a, row_b, row_c] 1) 9
       = (null_Operation, Some (StoreError ''ambiguous column name: id''))
   \<and> GetOperationByUUID (example_ctx [row_a, row_b, row_c] 1) ''abc-2''
       = (\<lparr>ID = 2, UUID = ''abc-2'', NodeAddress = ''10.0.0.2'', Type = 7\<rparr>, None)
   \<and> GetOperationByUUID (example_ctx [row_a, row_b, row_c] 1) ''abc-9''
       = (null_Operation, Some ErrNoSuchObject)"
proof -
  let ?c = "example_ctx [row_a, row_b, row_c] 1"
  have ok: "store_ok (tx ?c)"
    by (rule example_store_ok)
  have res: "nodes_resolve (tx ?c)"
    by (rule example_nodes_resolve) (simp add: row_a_def row_b_def row_c_def)
  have tbl: "operations_tbl (tx ?c) = [row_a, row_b, row_c]"
    and nodes: "nodes_tbl (tx ?c) = example_nodes"
    and prep: "fail (tx ?c) Prepare = None"
    by (simp_all add: example_ctx_def no_failure_def)
  have two: "filter (\<lambda>r. op_id r = 2) (operations_tbl (tx ?c)) = [row_b]"
    and nine: "filter (\<lambda>r. op_id r = 9) (operations_tbl (tx ?c)) = []"
    unfolding tbl by (simp_all add: row_a_def row_b_def row_c_def)
  have by_id: "GetOperationWithID ?c opID
                 = (null_Operation, Some (StoreError ''ambiguous column name: id''))" for opID
    by (simp add: GetOperationWithID_ambiguous prep)
  have one: "GetOperationByUUID ?c ''abc-2''
               = (\<lparr>ID = 2, UUID = ''abc-2'', NodeAddress = ''10.0.0.2'', Type = 7\<rparr>, None)"
    using GetOperationByUUID_single [OF ok res, of "''abc-2''"] unfolding tbl nodes
    by (simp add: row_a_def row_b_def row_c_def example_nodes_def Operation_of_def)
  have none: "GetOperationByUUID ?c ''abc-9'' = (null_Operation, Some ErrNoSuchObject)"
    using GetOperationByUUID_single [OF ok res, of "''abc-9''"] unfolding tbl nodes
    by (simp add: row_a_def row_b_def row_c_def)
  from two by_id [of 2] nine by_id [of 9] one none show ?thesis
    by (simp only: simp_thms)
qed

text \<open>
  Claim C10. Whenever \<^verbatim>\<open>GetOperationWithID\<close> or \<^verbatim>\<open>GetOperationByUUID\<close> returns an error,
  whatever the store did, the \<^verbatim>\<open>Operation\<close> returned with it is the zero value.
\<close>

theorem errors_return_null_Operation:
  "(snd (GetOperationWithID c opID) \<noteq> None \<longrightarrow> fst (GetOperationWithID c opID) = null_Operation)
   \<and> (snd (GetOperationByUUID c uuid) \<noteq> None \<longrightarrow> fst (GetOperationByUUID c uuid) = null_Operation)"
  by (auto simp: GetOperationWithID_def GetOperationByUUID_def
           split: prod.splits option.splits list.splits)

theorem errors_return_null_Operation_witness:
  "snd (GetOperationWithID (example_ctx [row_a] 1) 9) \<noteq> None
   \<and> fst (GetOperationWithID (example_ctx [row_a] 1) 9) = null_Operation
   \<and> snd (GetOperationByUUID (example_ctx [row_a] 1) ''abc-9'') \<noteq> None
   \<and> fst (GetOperationByUUID (example_ctx [row_a] 1) ''abc-9'') = null_Operation"
proof -
  let ?c = "example_ctx [row_a] 1"
  have ok: "store_ok (tx ?c)"
    by (rule example_store_ok)
  have "snd (GetOperationWithID ?c 9) \<noteq> None"
    by (simp add: GetOperationWithID_ambiguous)
  moreover have "snd (GetOperationByUUID ?c ''abc-9'') \<noteq> None"
    by (subst GetOperationByUUID_ok [OF ok]) (simp add: joined_operations_def example_ctx_def row_a_def)
  ultimately show ?thesis
    using errors_return_null_Operation [of ?c 9 "''abc-9''"] by simp
qed

subsection \<open>The operations of the local node\<close>

text \<open>
  Claim C8. When the store works, \<^verbatim>\<open>GetLocalOperations\<close> returns exactly the operations
  whose \<open>node_id\<close> is the node identity of the transaction: one \<^verbatim>\<open>Operation\<close> for each
  such row and no other, in the order of the identifiers, each with the address of the
  local node (given that every operation row has its node row). When the local node has
  no operation, the result is the empty slice and a nil error.
\<close>

theorem GetLocalOperations_local:
  assumes "store_ok (tx c)"
  shows "(nodes_resolve (tx c) \<longrightarrow>
            (\<exists>ops. GetLocalOperations c = (Some ops, None) \<and>
               list_all2 (\<lambda>op r. \<exists>n \<in> set (nodes_tbl (tx c)). node_id n = nodeID c \<and> op = Operation_of r n)
                 ops
                 (sort_key op_id (filter (\<lambda>r. op_node_id r = nodeID c) (operations_tbl (tx c))))))
       \<and> (filter (\<lambda>r. op_node_id r = nodeID c) (operations_tbl (tx c)) = [] \<longrightarrow>
            GetLocalOperations c = (Some [], None))"
proof (intro conjI impI)
  let ?local = "\<lambda>r. op_node_id r = nodeID c"
  have run: "GetLocalOperations c = (Some (joined_operations (tx c) ?local), None)"
    unfolding GetLocalOperations_def
    by (rule operations_ok [OF assms where_filter_node_id])
  {
    assume res: "nodes_resolve (tx c)"
    have "\<exists>n \<in> set (nodes_tbl (tx c)). node_id n = nodeID c \<and>
            Operation_of r (hd (joined_nodes (tx c) r)) = Operation_of r n"
      if "r \<in> set (sort_key op_id (filter ?local (operations_tbl (tx c))))" for r
    proof -
      from that have "r \<in> set (operations_tbl (tx c))" and "op_node_id r = nodeID c"
        by simp_all
      with hd_joined_nodes [OF res, of r] show ?thesis by auto
    qed
    then have "list_all2 (\<lambda>op r. \<exists>n \<in> set (nodes_tbl (tx c)). node_id n = nodeID c \<and> op = Operation_of r n)
                 (joined_operations (tx c) ?local)
                 (sort_key op_id (filter ?local (operations_tbl (tx c))))"
      unfolding joined_operations_resolved [OF res] list_all2_map1 list_all2_same
      by blast
    with run show "\<exists>ops. GetLocalOperations c = (Some ops, None) \<and>
               list_all2 (\<lambda>op r. \<exists>n \<in> set (nodes_tbl (tx c)). node_id n = nodeID c \<and> op = Operation_of r n)
                 ops (sort_key op_id (filter ?local (operations_tbl (tx c))))"
      by blast
  }
  {
    assume "filter ?local (operations_tbl (tx c)) = []"
    then show "GetLocalOperations c = (Some [], None)"
      by (simp add: run joined_operations_def)
  }
qed

theorem GetLocalOperations_local_witness:
  "store_ok (tx (example_ctx [row_c, row_b, row_a] 1))
   \<and> nodes_resolve (tx (example_ctx [row_c, row_b, row_a] 1))
   \<and> GetLocalOperations (example_ctx [row_c, row_b, row_a] 1)
       = (Some [\<lparr>ID = 1, UUID = ''abc-1'', NodeAddress = ''10.0.0.1'', Type = 7\<rparr>,
                \<lparr>ID = 3, UUID = ''abc-3'', NodeAddress = ''10.0.0.1'', Type = 7\<rparr>], None)
   \<and> filter (\<lambda>r. op_node_id r = nodeID (example_ctx [row_b] 1)) (operations_tbl (tx (example_ctx [row_b] 1))) = []
   \<and> GetLocalOperations (example_ctx [row_b] 1) = (Some [], None)"
proof -
  let ?c = "example_ctx [row_c, row_b, row_a] 1"
  let ?d = "example_ctx [row_b] 1"
  have ok: "store_ok (tx ?c)"
    by (rule example_store_ok)
  have res: "nodes_resolve (tx ?c)"
    by (rule example_nodes_resolve) (simp add: row_a_def row_b_def row_c_def)
  have sel: "tx ?c = \<lparr>operations_tbl = [row_c, row_b, row_a], nodes_tbl = example_nodes,
       projects_tbl = example_projects, fail = no_failure, rows_err = None\<rparr>" "nodeID ?c = 1"
    by (simp_all add: example_ctx_def)
  have full: "GetLocalOperations ?c
       = (Some [\<lparr>ID = 1, UUID = ''abc-1'', NodeAddress = ''10.0.0.1'', Type = 7\<rparr>,
                \<lparr>ID = 3, UUID = ''abc-3'', NodeAddress = ''10.0.0.1'', Type = 7\<rparr>], None)"
    using GetLocalOperations_local [OF ok] res unfolding sel
    by (auto simp: row_a_def row_b_def row_c_def example_nodes_def Operation_of_def
          list_all2_Cons2)
  have none: "filter (\<lambda>r. op_node_id r = nodeID ?d) (operations_tbl (tx ?d)) = []"
    by (simp add: example_ctx_def row_b_def)
  have empty: "GetLocalOperations ?d = (Some [], None)"
    using GetLocalOperations_local [OF example_store_ok, of "[row_b]" 1] none by blast
  from ok res full none empty show ?thesis
    by (simp only: simp_thms)
qed

subsection \<open>Removing operations\<close>

lemma removeNodeOperations_exec:
  assumes "fail (tx c) Exec = None"
  shows "removeNodeOperations c nid =
           (None, c\<lparr>tx := (tx c)\<lparr>operations_tbl :=
                      filter (\<lambda>r. op_node_id r \<noteq> nid) (operations_tbl (tx c))\<rparr>\<rparr>)"
  using assms by (simp add: removeNodeOperations_def tx_Exec_def)

text \<open>
  Claim C9. When the delete succeeds, \<^verbatim>\<open>removeNodeOperations\<close> returns nil, whether or
  not any row matched, and removes every operation row of the given node and no other
  row; a \<^verbatim>\<open>GetLocalOperations\<close> that follows in the context of that node, on a store that
  works, returns the empty slice.
\<close>

theorem removeNodeOperations_purges:
  assumes "fail (tx c) Exec = None"
  shows "fst (removeNodeOperations c nid) = None
       \<and> operations_tbl (tx (snd (removeNodeOperations c nid)))
           = filter (\<lambda>r. op_node_id r \<noteq> nid) (operations_tbl (tx c))
       \<and> (store_ok (tx c) \<longrightarrow>
            GetLocalOperations ((snd (removeNodeOperations c nid))\<lparr>nodeID := nid\<rparr>) = (Some [], None))"
proof -
  let ?c' = "(snd (removeNodeOperations c nid))\<lparr>nodeID := nid\<rparr>"
  note run = removeNodeOperations_exec [OF assms, of nid]
  have tbl: "operations_tbl (tx ?c') = filter (\<lambda>r. op_node_id r \<noteq> nid) (operations_tbl (tx c))"
    by (simp add: run)
  have "GetLocalOperations ?c' = (Some [], None)" if ok: "store_ok (tx c)"
  proof -
    have "store_ok (tx ?c')"
      using ok by (simp add: run store_ok_def)
    moreover have "filter (\<lambda>r. op_node_id r = nodeID ?c') (operations_tbl (tx ?c')) = []"
      unfolding tbl by (simp add: run)
    ultimately show ?thesis
      using operations_ok [of ?c' "''node_id=?''" "[SqlInt (nodeID ?c')]", OF _ where_filter_node_id]
      by (simp add: GetLocalOperations_def joined_operations_def)
  qed
  then show ?thesis
    by (simp add: run)
qed

theorem removeNodeOperations_purges_witness:
  "fail (tx (example_ctx [row_a, row_b, row_c] 2)) Exec = None
   \<and> store_ok (tx (example_ctx [row_a, row_b, row_c] 2))
   \<and> fst (removeNodeOperations (example_ctx [row_a, row_b, row_c] 2) 1) = None
   \<and> operations_tbl (tx (snd (removeNodeOperations (example_ctx [row_a, row_b, row_c] 2) 1))) = [row_b]
   \<and> GetLocalOperations ((snd (removeNodeOperations (example_ctx [row_a, row_b, row_c] 2) 1))\<lparr>nodeID := 1\<rparr>)
       = (Some [], None)
   \<and> fst (removeNodeOperations (example_ctx [row_a, row_b, row_c] 2) 5) = None
   \<and> operations_tbl (tx (snd (removeNodeOperations (example_ctx [row_a, row_b, row_c] 2) 5)))
       = [row_a, row_b, row_c]"
proof -
  let ?c = "example_ctx [row_a, row_b, row_c] 2"
  have exec: "fail (tx ?c) Exec = None"
    by (simp add: example_ctx_def no_failure_def)
  have ok: "store_ok (tx ?c)"
    by (rule example_store_ok)
  have tbl: "operations_tbl (tx ?c) = [row_a, row_b, row_c]"
    by (simp add: example_ctx_def)
  have one: "fst (removeNodeOperations ?c 1) = None
       \<and> operations_tbl (tx (snd (removeNodeOperations ?c 1))) = [row_b]
       \<and> GetLocalOperations ((snd (removeNodeOperations ?c 1))\<lparr>nodeID := 1\<rparr>) = (Some [], None)"
    using removeNodeOperations_purges [OF exec, of 1] ok unfolding tbl
    by (simp add: row_a_def row_b_def row_c_def)
  have five: "fst (removeNodeOperations ?c 5) = None
       \<and> operations_tbl (tx (snd (removeNodeOperations ?c 5))) = [row_a, row_b, row_c]"
    using removeNodeOperations_purges [OF exec, of 5] unfolding tbl
    by (simp add: row_a_def row_b_def row_c_def)
  from exec ok one five show ?thesis
    by (simp only: simp_thms)
qed

lemma RemoveOperation_run:
  "RemoveOperation c uuid =
     (case fail (tx c) Exec of
        Some e \<Rightarrow> (Some e, c)
      | None \<Rightarrow>
          (case fail (tx c) RowsAffected of
             Some e \<Rightarrow> Some e
           | None \<Rightarrow>
               if length (filter (\<lambda>r. op_uuid r = uuid) (operations_tbl (tx c))) \<noteq> 1
               then Some (Errorf (''query deleted ''
                      @ string_of_int (int (length (filter (\<lambda>r. op_uuid r = uuid) (operations_tbl (tx c)))))
                      @ '' rows instead of 1''))
               else None,
           c\<lparr>tx := (tx c)\<lparr>operations_tbl :=
                  filter (\<lambda>r. op_uuid r \<noteq> uuid) (operations_tbl (tx c))\<rparr>\<rparr>))"
  by (simp add: RemoveOperation_def tx_Exec_def result_RowsAffected_def split: option.splits)

text \<open>
  Claim C6. \<^verbatim>\<open>RemoveOperation\<close> returns nil only when exactly one row had the uuid, and
  then no row with that uuid remains. When the store reports no failure, it returns nil
  exactly when one row was deleted; when the delete affected no row, or more than one,
  it returns the error ``query deleted n rows instead of 1''.
\<close>

theorem RemoveOperation_one_row:
  "(fst (RemoveOperation c uuid) = None \<longrightarrow>
      length (filter (\<lambda>r. op_uuid r = uuid) (operations_tbl (tx c))) = 1
      \<and> filter (\<lambda>r. op_uuid r = uuid) (operations_tbl (tx (snd (RemoveOperation c uuid)))) = [])
   \<and> (fail (tx c) Exec = None \<and> fail (tx c) RowsAffected = None \<longrightarrow>
        (fst (RemoveOperation c uuid) = None
           \<longleftrightarrow> length (filter (\<lambda>r. op_uuid r = uuid) (operations_tbl (tx c))) = 1)
        \<and> (length (filter (\<lambda>r. op_uuid r = uuid) (operations_tbl (tx c))) \<noteq> 1 \<longrightarrow>
             fst (RemoveOperation c uuid)
               = Some (Errorf (''query deleted ''
                    @ string_of_int (int (length (filter (\<lambda>r. op_uuid r = uuid) (operations_tbl (tx c)))))
                    @ '' rows instead of 1'')))
        \<and> operations_tbl (tx (snd (RemoveOperation c uuid)))
             = filter (\<lambda>r. op_uuid r \<noteq> uuid) (operations_tbl (tx c)))"
  by (simp add: RemoveOperation_run split: option.splits)

lemma string_of_int_0: "string_of_int 0 = ''0''"
  by (simp add: string_of_int_def string_of_nat.simps)

lemma string_of_int_2: "string_of_int 2 = ''2''"
  by (simp add: string_of_int_def string_of_nat.simps)

theorem RemoveOperation_one_row_witness:
  "fail (tx (example_ctx [row_a, row_b, row_c, row_c] 1)) Exec = None
   \<and> fail (tx (example_ctx [row_a, row_b, row_c, row_c] 1)) RowsAffected = None
   \<and> fst (RemoveOperation (example_ctx [row_a, row_b, row_c, row_c] 1) ''abc-2'') = None
   \<and> operations_tbl (tx (snd (RemoveOperation (example_ctx [row_a, row_b, row_c, row_c] 1) ''abc-2'')))
       = [row_a, row_c, row_c]
   \<and> fst (RemoveOperation (example_ctx [row_a, row_b, row_c, row_c] 1) ''abc-9'')
       = Some (Errorf ''query deleted 0 rows instead of 1'')
   \<and> fst (RemoveOperation (example_ctx [row_a, row_b, row_c, row_c] 1) ''abc-3'')
       = Some (Errorf ''query deleted 2 rows instead of 1'')"
proof -
  let ?c = "example_ctx [row_a, row_b, row_c, row_c] 1"
  have exec: "fail (tx ?c) Exec = None" and aff: "fail (tx ?c) RowsAffected = None"
    by (simp_all add: example_ctx_def no_failure_def)
  have tbl: "operations_tbl (tx ?c) = [row_a, row_b, row_c, row_c]"
    by (simp add: example_ctx_def)
  have one: "fst (RemoveOperation ?c ''abc-2'') = None
       \<and> operations_tbl (tx (snd (RemoveOperation ?c ''abc-2''))) = [row_a, row_c, row_c]"
    using RemoveOperation_one_row [of ?c "''abc-2''"] exec aff unfolding tbl
    by (simp add: row_a_def row_b_def row_c_def)
  have zero: "fst (RemoveOperation ?c ''abc-9'') = Some (Errorf ''query deleted 0 rows instead of 1'')"
    using RemoveOperation_one_row [of ?c "''abc-9''"] exec aff unfolding tbl
    by (simp add: row_a_def row_b_def row_c_def string_of_int_0)
  have two: "fst (RemoveOperation ?c ''abc-3'') = Some (Errorf ''query deleted 2 rows instead of 1'')"
    using RemoveOperation_one_row [of ?c "''abc-3''"] exec aff unfolding tbl
    by (simp add: row_a_def row_b_def row_c_def string_of_int_2)
  from exec aff one zero two show ?thesis
    by (simp only: simp_thms)
qed

subsection \<open>The nodes that run operations\<close>

lemma scan_strings_text:
  assumes "fail t Scan = None"
  shows "scan_strings t (map (\<lambda>a. [SqlText a]) as) vs = (vs @ as, None)"
  using assms by (induction as arbitrary: vs) (simp_all add: rows_Scan_def)

lemma remdups_text_rows:
  "remdups (map (\<lambda>a. [SqlText a]) as) = map (\<lambda>a. [SqlText a]) (remdups as)"
  by (induction as) auto

lemma sql_distinct_text_rows:
  "sql_distinct (map (\<lambda>a. [SqlText a]) as) = map (\<lambda>a. [SqlText a]) (sql_distinct as)"
  by (simp add: sql_distinct_def rev_map remdups_text_rows)

lemma distinct_sql_distinct: "distinct (sql_distinct xs)"
  by (simp add: sql_distinct_def)

lemma set_sql_distinct: "set (sql_distinct xs) = set xs"
  by (simp add: sql_distinct_def)

lemma SelectStrings_nodes_ok:
  assumes "store_ok t"
  shows "SelectStrings t Select_nodes_with_operations [SqlText name] =
           (Some (sql_distinct (map (\<lambda>j. node_address (snd (snd j)))
                     (filter (project_matches name) (from_operations_projects_nodes t)))), None)"
proof -
  let ?as = "map (\<lambda>j. node_address (snd (snd j)))
               (filter (project_matches name) (from_operations_projects_nodes t))"
  have rows: "select_rows t Select_nodes_with_operations [SqlText name]
                = Inr (map (\<lambda>a. [SqlText a]) (sql_distinct ?as))"
    by (simp add: sql_distinct_text_rows [symmetric] case_prod_unfold comp_def)
  from assms have "fail t Query = None" "fail t Scan = None" "rows_err t = None"
    by (simp_all add: store_ok_def)
  then show ?thesis
    by (simp add: SelectStrings_def tx_Query_def rows scan_strings_text del: select_rows.simps)
qed

lemma in_left_joined_projects:
  "p \<in> set (left_joined_projects t r) \<longleftrightarrow>
     (p = None \<and> (\<forall>q \<in> set (projects_tbl t). Some (project_id q) \<noteq> op_project_id r))
     \<or> (\<exists>q \<in> set (projects_tbl t). p = Some q \<and> Some (project_id q) = op_project_id r)"
proof (cases "filter (\<lambda>q. Some (project_id q) = op_project_id r) (projects_tbl t)")
  case Nil
  then have "\<forall>q \<in> set (projects_tbl t). Some (project_id q) \<noteq> op_project_id r"
    by (simp add: filter_empty_conv)
  with Nil show ?thesis
    by (auto simp: left_joined_projects_def)
next
  case (Cons q qs)
  then have "q \<in> set (filter (\<lambda>q. Some (project_id q) = op_project_id r) (projects_tbl t))"
    by simp
  then have ex: "q \<in> set (projects_tbl t) \<and> Some (project_id q) = op_project_id r"
    by simp
  have "set (left_joined_projects t r)
          = Some ` set (filter (\<lambda>q. Some (project_id q) = op_project_id r) (projects_tbl t))"
    using Cons by (simp add: left_joined_projects_def)
  with ex show ?thesis by auto
qed

lemma in_from_operations_projects_nodes:
  "(r, p, n) \<in> set (from_operations_projects_nodes t) \<longleftrightarrow>
     r \<in> set (operations_tbl t) \<and> p \<in> set (left_joined_projects t r)
     \<and> n \<in> set (nodes_tbl t) \<and> node_id n = op_node_id r"
  by (auto simp: from_operations_projects_nodes_def joined_nodes_def)

text \<open>An operation row is visible in a project: it has the project's name, or no project.\<close>

lemma visible_iff:
  "(\<exists>p. p \<in> set (left_joined_projects t r) \<and> project_matches name (r, p, n)) \<longleftrightarrow>
     op_project_id r = None
     \<or> (\<exists>q \<in> set (projects_tbl t). Some (project_id q) = op_project_id r \<and> project_name q = name)"
proof (cases "op_project_id r")
  case None
  then have "None \<in> set (left_joined_projects t r)"
    by (simp add: in_left_joined_projects)
  moreover from None have "project_matches name (r, None, n)"
    by (simp add: project_matches_def)
  ultimately show ?thesis
    using None by blast
next
  case (Some i)
  have "project_matches name (r, p, n) \<longleftrightarrow> (\<exists>q. p = Some q \<and> project_name q = name)" for p
    using Some by (cases p) (simp_all add: project_matches_def)
  then show ?thesis
    using Some by (auto simp: in_left_joined_projects)
qed

text \<open>
  Claim C7. When the store works, \<^verbatim>\<open>GetNodesWithRunningOperations\<close> returns a list
  without duplicates that holds an address if and only if it is the address of a node
  with at least one operation whose project has the given name, or at least one operation
  without project. A node whose operations all belong to other projects does not
  contribute its address.
\<close>

theorem GetNodesWithRunningOperations_addresses:
  assumes "store_ok (tx c)"
  shows "\<exists>addrs. GetNodesWithRunningOperations c project = (Some addrs, None)
           \<and> distinct addrs
           \<and> set addrs =
               {a. \<exists>n \<in> set (nodes_tbl (tx c)). a = node_address n \<and>
                     (\<exists>r \<in> set (operations_tbl (tx c)). op_node_id r = node_id n \<and>
                        (op_project_id r = None
                         \<or> (\<exists>q \<in> set (projects_tbl (tx c)).
                               Some (project_id q) = op_project_id r \<and> project_name q = project)))}"
proof -
  let ?t = "tx c"
  let ?J = "filter (project_matches project) (from_operations_projects_nodes ?t)"
  let ?addrs = "sql_distinct (map (\<lambda>j. node_address (snd (snd j))) ?J)"
  let ?visible = "\<lambda>r. op_project_id r = None
                         \<or> (\<exists>q \<in> set (projects_tbl ?t).
                               Some (project_id q) = op_project_id r \<and> project_name q = project)"
  have run: "GetNodesWithRunningOperations c project = (Some ?addrs, None)"
    unfolding GetNodesWithRunningOperations_def by (rule SelectStrings_nodes_ok [OF assms])
  have "a \<in> set ?addrs \<longleftrightarrow>
          (\<exists>n \<in> set (nodes_tbl ?t). a = node_address n \<and>
             (\<exists>r \<in> set (operations_tbl ?t). op_node_id r = node_id n \<and> ?visible r))" for a
  proof
    assume "a \<in> set ?addrs"
    then obtain r p n where j: "(r, p, n) \<in> set (from_operations_projects_nodes ?t)"
      and m: "project_matches project (r, p, n)" and a: "a = node_address n"
      by (auto simp: set_sql_distinct)
    from j have r: "r \<in> set (operations_tbl ?t)" and p: "p \<in> set (left_joined_projects ?t r)"
      and n: "n \<in> set (nodes_tbl ?t)" and nr: "node_id n = op_node_id r"
      by (simp_all add: in_from_operations_projects_nodes)
    from p m have "?visible r"
      using visible_iff [of ?t r project n] by blast
    with r nr have "\<exists>r \<in> set (operations_tbl ?t). op_node_id r = node_id n \<and> ?visible r"
      by (intro bexI [of _ r]) simp_all
    with n a show "\<exists>n \<in> set (nodes_tbl ?t). a = node_address n \<and>
             (\<exists>r \<in> set (operations_tbl ?t). op_node_id r = node_id n \<and> ?visible r)"
      by (intro bexI [of _ n]) simp_all
  next
    assume "\<exists>n \<in> set (nodes_tbl ?t). a = node_address n \<and>
             (\<exists>r \<in> set (operations_tbl ?t). op_node_id r = node_id n \<and> ?visible r)"
    then obtain n r where n: "n \<in> set (nodes_tbl ?t)" and a: "a = node_address n"
      and r: "r \<in> set (operations_tbl ?t)" and nr: "op_node_id r = node_id n" and v: "?visible r"
      by blast
    from v obtain p where p: "p \<in> set (left_joined_projects ?t r)"
      and m: "project_matches project (r, p, n)"
      using visible_iff [of ?t r project n] by blast
    from r p n nr [symmetric] have "(r, p, n) \<in> set (from_operations_projects_nodes ?t)"
      by (simp add: in_from_operations_projects_nodes)
    with m have "(r, p, n) \<in> set ?J" by simp
    then have "node_address (snd (snd (r, p, n))) \<in> set ?addrs"
      unfolding set_sql_distinct set_map by (rule imageI)
    with a show "a \<in> set ?addrs" by simp
  qed
  then have "set ?addrs =
               {a. \<exists>n \<in> set (nodes_tbl ?t). a = node_address n \<and>
                     (\<exists>r \<in> set (operations_tbl ?t). op_node_id r = node_id n \<and> ?visible r)}"
    by blast
  with run show ?thesis by (intro exI [of _ ?addrs]) (simp add: distinct_sql_distinct)
qed

theorem GetNodesWithRunningOperations_addresses_witness:
  "store_ok (tx (example_ctx [row_b, row_c, row_c] 2))
   \<and> (\<exists>addrs. GetNodesWithRunningOperations (example_ctx [row_b, row_c, row_c] 2) ''other'' = (Some addrs, None)
         \<and> distinct addrs \<and> set addrs = {''10.0.0.1''})
   \<and> (\<exists>addrs. GetNodesWithRunningOperations (example_ctx [row_a, row_b] 2) ''no such project'' = (Some addrs, None)
         \<and> distinct addrs \<and> set addrs = {''10.0.0.1''})"
proof -
  let ?c = "example_ctx [row_b, row_c, row_c] 2"
  let ?d = "example_ctx [row_a, row_b] 2"
  have ok: "store_ok (tx ?c)"
    by (rule example_store_ok)
  have sel: "nodes_tbl (tx ?c) = example_nodes" "projects_tbl (tx ?c) = example_projects"
    "operations_tbl (tx ?c) = [row_b, row_c, row_c]"
    "nodes_tbl (tx ?d) = example_nodes" "projects_tbl (tx ?d) = example_projects"
    "operations_tbl (tx ?d) = [row_a, row_b]"
    by (simp_all add: example_ctx_def)
  have other: "{a. \<exists>n \<in> set example_nodes. a = node_address n \<and>
                     (\<exists>r \<in> set [row_b, row_c, row_c]. op_node_id r = node_id n \<and>
                        (op_project_id r = None
                         \<or> (\<exists>q \<in> set example_projects.
                               Some (project_id q) = op_project_id r \<and> project_name q = ''other'')))}
               = {''10.0.0.1''}"
    by (auto simp: example_nodes_def example_projects_def row_b_def row_c_def)
  have global: "{a. \<exists>n \<in> set example_nodes. a = node_address n \<and>
                     (\<exists>r \<in> set [row_a, row_b]. op_node_id r = node_id n \<and>
                        (op_project_id r = None
                         \<or> (\<exists>q \<in> set example_projects.
                               Some (project_id q) = op_project_id r \<and> project_name q = ''no such project'')))}
               = {''10.0.0.1''}"
    by (auto simp: example_nodes_def example_projects_def row_a_def row_b_def)
  have c: "\<exists>addrs. GetNodesWithRunningOperations ?c ''other'' = (Some addrs, None)
         \<and> distinct addrs \<and> set addrs = {''10.0.0.1''}"
    using GetNodesWithRunningOperations_addresses [OF ok, of "''other''"]
    unfolding sel other .
  have d: "\<exists>addrs. GetNodesWithRunningOperations ?d ''no such project'' = (Some addrs, None)
         \<and> distinct addrs \<and> set addrs = {''10.0.0.1''}"
    using GetNodesWithRunningOperations_addresses [OF example_store_ok, of "[row_a, row_b]" 2 "''no such project''"]
    unfolding sel global .
  from ok c d show ?thesis
    by (intro conjI)
qed

subsection \<open>Creating operations\<close>

lemma fold_max_ge: "a \<le> fold max xs (a::int)"
  by (induction xs arbitrary: a) (auto intro: order_trans [OF max.cobounded2])

lemma fold_max_upper: "x \<in> set xs \<Longrightarrow> x \<le> fold max xs (a::int)"
proof (induction xs arbitrary: a)
  case Nil
  then show ?case by simp
next
  case (Cons y ys)
  show ?case
  proof (cases "x = y")
    case True
    have "x \<le> max y a" using True by simp
    also have "\<dots> \<le> fold max ys (max y a)" by (rule fold_max_ge)
    finally show ?thesis by simp
  next
    case False
    with Cons.prems have "x \<in> set ys" by simp
    then show ?thesis using Cons.IH by simp
  qed
qed

lemma fresh_id_new: "r \<in> set rs \<Longrightarrow> op_id r < fresh_id rs"
  using fold_max_upper [of "op_id r" "map op_id rs" 0] by (simp add: fresh_id_def)

lemma insert_or_replace_operation:
  "insert_or_replace t ''operations'' [''uuid'', ''node_id'', ''type'', ''project_id'']
     [SqlText u, SqlInt n, SqlInt ty, pv] =
   (case as_nullable_int (Some pv) of
      None \<Rightarrow> Inl (StoreError ''datatype mismatch'')
    | Some pid \<Rightarrow>
        if n \<notin> set (map node_id (nodes_tbl t))
           \<or> (case pid of None \<Rightarrow> False | Some q \<Rightarrow> q \<notin> set (map project_id (projects_tbl t)))
        then Inl (StoreError ''FOREIGN KEY constraint failed'')
        else Inr (\<lparr>rows_affected = 1, last_insert_id = fresh_id (operations_tbl t)\<rparr>,
                  upserted t u n ty pid))"
  by (simp add: insert_or_replace_def upserted_def Let_def split: option.splits)

lemma GetProjectID_unknown:
  assumes "\<forall>p \<in> set (projects_tbl (tx c)). project_name p \<noteq> name"
  shows "\<exists>i err. GetProjectID c name = (i, Some err)
           \<and> (fail (tx c) Query = None \<longrightarrow> err = ErrNoSuchObject)"
proof -
  from assms have "find (\<lambda>p. project_name p = name) (projects_tbl (tx c)) = None"
    by (simp add: find_None_iff)
  then show ?thesis
    by (cases "fail (tx c) Query") (simp_all add: GetProjectID_def)
qed

lemma GetProjectID_found:
  assumes "GetProjectID c name = (i, None)"
  shows "\<exists>p \<in> set (projects_tbl (tx c)). project_name p = name \<and> project_id p = i"
proof -
  from assms obtain p where "find (\<lambda>p. project_name p = name) (projects_tbl (tx c)) = Some p"
    and "project_id p = i"
    by (auto simp: GetProjectID_def split: option.splits)
  then show ?thesis
    by (auto simp: find_Some_iff)
qed

lemma GetProjectID_known:
  assumes "fail (tx c) Query = None" and "\<exists>p \<in> set (projects_tbl (tx c)). project_name p = name"
  shows "\<exists>i. GetProjectID c name = (i, None)"
proof -
  from assms(2) have "find (\<lambda>p. project_name p = name) (projects_tbl (tx c)) \<noteq> None"
    by (auto simp: find_None_iff)
  with assms(1) show ?thesis
    by (auto simp: GetProjectID_def)
qed

lemma UpsertObject_operation:
  "UpsertObject t ''operations'' [''uuid'', ''node_id'', ''type'', ''project_id'']
     [SqlText u, SqlInt n, SqlInt ty, pv] =
   (case tx_Exec t (Insert_or_replace ''operations'' [''uuid'', ''node_id'', ''type'', ''project_id''])
           [SqlText u, SqlInt n, SqlInt ty, pv] of
      Inl err \<Rightarrow> ((- 1, Some err), t)
    | Inr (res, t') \<Rightarrow>
        (case fail t' LastInsertId of
           Some err \<Rightarrow> ((- 1, Some err), t')
         | None \<Rightarrow> ((last_insert_id res, None), t')))"
  by (simp add: UpsertObject_def result_LastInsertId_def split: sum.splits option.splits)

lemma UpsertObject_success:
  assumes "UpsertObject t ''operations'' [''uuid'', ''node_id'', ''type'', ''project_id'']
             [SqlText u, SqlInt n, SqlInt ty, pv] = ((new, None), t')"
  shows "\<exists>pid. as_nullable_int (Some pv) = Some pid \<and> t' = upserted t u n ty pid
           \<and> new = fresh_id (operations_tbl t) \<and> n \<in> set (map node_id (nodes_tbl t))"
  using assms
  by (auto simp: UpsertObject_operation tx_Exec_def insert_or_replace_operation upserted_def
           split: option.splits if_splits sum.splits)

lemma UpsertObject_table:
  "operations_tbl (snd (UpsertObject t ''operations'' [''uuid'', ''node_id'', ''type'', ''project_id'']
             [SqlText u, SqlInt n, SqlInt ty, pv])) = operations_tbl t
   \<or> (\<exists>pid. operations_tbl (snd (UpsertObject t ''operations'' [''uuid'', ''node_id'', ''type'', ''project_id'']
             [SqlText u, SqlInt n, SqlInt ty, pv])) = operations_tbl (upserted t u n ty pid))"
  by (auto simp: UpsertObject_operation tx_Exec_def insert_or_replace_operation
           split: option.splits if_splits sum.splits)

lemma CreateOperation_global:
  "CreateOperation c [] uuid typ =
     (case UpsertObject (tx c) ''operations'' [''uuid'', ''node_id'', ''type'', ''project_id'']
             [SqlText uuid, SqlInt (nodeID c), SqlInt typ, SqlNull] of
        (r, t') \<Rightarrow> (r, c\<lparr>tx := t'\<rparr>))"
  by (simp add: CreateOperation_def)

lemma CreateOperation_project:
  assumes "project \<noteq> []"
  shows "CreateOperation c project uuid typ =
     (case GetProjectID c project of
        (pid, Some err) \<Rightarrow> ((- 1, Some (Wrap err ''Fetch project ID'')), c)
      | (pid, None) \<Rightarrow>
         (case UpsertObject (tx c) ''operations'' [''uuid'', ''node_id'', ''type'', ''project_id'']
             [SqlText uuid, SqlInt (nodeID c), SqlInt typ, SqlInt pid] of
            (r, t') \<Rightarrow> (r, c\<lparr>tx := t'\<rparr>)))"
  using assms by (simp add: CreateOperation_def split: prod.splits option.splits)

lemma CreateOperation_success:
  assumes "fst (CreateOperation c project uuid typ) = (new, None)"
  shows "\<exists>pid. (if project = [] then pid = None
                else \<exists>p \<in> set (projects_tbl (tx c)). project_name p = project \<and> pid = Some (project_id p))
           \<and> snd (CreateOperation c project uuid typ)
               = c\<lparr>tx := upserted (tx c) uuid (nodeID c) typ pid\<rparr>
           \<and> new = fresh_id (operations_tbl (tx c))
           \<and> nodeID c \<in> set (map node_id (nodes_tbl (tx c)))"
proof (cases "project = []")
  case True
  obtain r t' where u: "UpsertObject (tx c) ''operations'' [''uuid'', ''node_id'', ''type'', ''project_id'']
             [SqlText uuid, SqlInt (nodeID c), SqlInt typ, SqlNull] = (r, t')"
    by (cases "UpsertObject (tx c) ''operations'' [''uuid'', ''node_id'', ''type'', ''project_id'']
             [SqlText uuid, SqlInt (nodeID c), SqlInt typ, SqlNull]")
  with assms True have r: "r = (new, None)"
    by (simp add: CreateOperation_global)
  from UpsertObject_success [OF u [unfolded r]] u True show ?thesis
    by (auto simp: CreateOperation_global)
next
  case False
  obtain i e where g: "GetProjectID c project = (i, e)"
    by (cases "GetProjectID c project")
  with assms False have e: "e = None"
    by (cases e) (simp_all add: CreateOperation_project)
  obtain r t' where u: "UpsertObject (tx c) ''operations'' [''uuid'', ''node_id'', ''type'', ''project_id'']
             [SqlText uuid, SqlInt (nodeID c), SqlInt typ, SqlInt i] = (r, t')"
    by (cases "UpsertObject (tx c) ''operations'' [''uuid'', ''node_id'', ''type'', ''project_id'']
             [SqlText uuid, SqlInt (nodeID c), SqlInt typ, SqlInt i]")
  with assms False g e have r: "r = (new, None)"
    by (simp add: CreateOperation_project)
  from GetProjectID_found [OF g [unfolded e]]
  obtain p where p: "p \<in> set (projects_tbl (tx c))" "project_name p = project" "project_id p = i"
    by blast
  from UpsertObject_success [OF u [unfolded r]] u False g e p show ?thesis
    by (auto simp: CreateOperation_project)
qed

lemma CreateOperation_table:
  "operations_tbl (tx (snd (CreateOperation c project uuid typ))) = operations_tbl (tx c)
   \<or> (\<exists>pid. operations_tbl (tx (snd (CreateOperation c project uuid typ)))
               = operations_tbl (upserted (tx c) uuid (nodeID c) typ pid))"
proof (cases "project = []")
  case True
  with UpsertObject_table [of "tx c" uuid "nodeID c" "typ" SqlNull] show ?thesis
    by (auto simp: CreateOperation_global split: prod.splits)
next
  case False
  obtain i e where g: "GetProjectID c project = (i, e)"
    by (cases "GetProjectID c project")
  with False UpsertObject_table [of "tx c" uuid "nodeID c" "typ" "SqlInt i"] show ?thesis
    by (cases e) (auto simp: CreateOperation_project split: prod.splits)
qed

lemma CreateOperation_succeeds:
  assumes ok: "store_ok (tx c)"
    and node: "nodeID c \<in> set (map node_id (nodes_tbl (tx c)))"
    and proj: "project = [] \<or> (\<exists>p \<in> set (projects_tbl (tx c)). project_name p = project)"
  shows "snd (fst (CreateOperation c project uuid typ)) = None"
proof (cases "project = []")
  case True
  with ok node show ?thesis
    by (simp add: CreateOperation_global UpsertObject_operation tx_Exec_def
          insert_or_replace_operation store_ok_def upserted_def)
next
  case False
  from ok have q: "fail (tx c) Query = None" by (simp add: store_ok_def)
  from False proj GetProjectID_known [OF q] obtain i where g: "GetProjectID c project = (i, None)"
    by blast
  from GetProjectID_found [OF g] have "i \<in> set (map project_id (projects_tbl (tx c)))"
    by auto
  with ok node False g show ?thesis
    by (simp add: CreateOperation_project UpsertObject_operation tx_Exec_def
          insert_or_replace_operation store_ok_def upserted_def)
qed

text \<open>
  Claim C4. \<^verbatim>\<open>CreateOperation\<close> with a non-empty project whose name does not resolve
  fails, with the lookup's \<open>ErrNoSuchObject\<close> as the cause of its error, and leaves the
  tables as they were. When it succeeds, the table has lost the rows with the given uuid
  and gained one row, made of the uuid, the node of the transaction, the type, and the
  project: NULL for the empty project string, the identifier of a project of that name
  otherwise; the value returned is the identifier of that row, which no row had before.
  It does succeed when the store works, the local node has its row, and the project is
  empty or resolves.
\<close>

theorem CreateOperation_upsert:
  "(project \<noteq> [] \<and> (\<forall>p \<in> set (projects_tbl (tx c)). project_name p \<noteq> project) \<longrightarrow>
      snd (CreateOperation c project uuid typ) = c
      \<and> fst (fst (CreateOperation c project uuid typ)) = - 1
      \<and> snd (fst (CreateOperation c project uuid typ)) \<noteq> None
      \<and> (fail (tx c) Query = None \<longrightarrow>
           snd (fst (CreateOperation c project uuid typ)) = Some (Wrap ErrNoSuchObject ''Fetch project ID'')
           \<and> Cause (Wrap ErrNoSuchObject ''Fetch project ID'') = ErrNoSuchObject))
   \<and> (fst (CreateOperation c project uuid typ) = (new, None) \<longrightarrow>
        (\<exists>pid. (if project = [] then pid = None
                else \<exists>p \<in> set (projects_tbl (tx c)). project_name p = project \<and> pid = Some (project_id p))
           \<and> operations_tbl (tx (snd (CreateOperation c project uuid typ)))
               = filter (\<lambda>r. op_uuid r \<noteq> uuid) (operations_tbl (tx c))
                 @ [\<lparr>op_id = new, op_uuid = uuid, op_node_id = nodeID c, op_type = typ,
                     op_project_id = pid\<rparr>])
        \<and> (\<forall>r \<in> set (operations_tbl (tx c)). op_id r \<noteq> new)
        \<and> nodeID (snd (CreateOperation c project uuid typ)) = nodeID c)
   \<and> (store_ok (tx c) \<and> nodeID c \<in> set (map node_id (nodes_tbl (tx c)))
        \<and> (project = [] \<or> (\<exists>p \<in> set (projects_tbl (tx c)). project_name p = project)) \<longrightarrow>
        snd (fst (CreateOperation c project uuid typ)) = None)"
proof (intro conjI impI)
  assume a: "project \<noteq> [] \<and> (\<forall>p \<in> set (projects_tbl (tx c)). project_name p \<noteq> project)"
  then have "\<forall>p \<in> set (projects_tbl (tx c)). project_name p \<noteq> project"
    by simp
  from GetProjectID_unknown [OF this] obtain i err
    where g: "GetProjectID c project = (i, Some err)"
      and e: "fail (tx c) Query = None \<longrightarrow> err = ErrNoSuchObject"
    by auto
  from a g have run: "CreateOperation c project uuid typ = ((- 1, Some (Wrap err ''Fetch project ID'')), c)"
    by (simp add: CreateOperation_project)
  show "snd (CreateOperation c project uuid typ) = c"
    and "fst (fst (CreateOperation c project uuid typ)) = - 1"
    and "snd (fst (CreateOperation c project uuid typ)) \<noteq> None"
    by (simp_all add: run)
  assume "fail (tx c) Query = None"
  with e show "snd (fst (CreateOperation c project uuid typ)) = Some (Wrap ErrNoSuchObject ''Fetch project ID'')"
    by (simp add: run)
next
  show "Cause (Wrap ErrNoSuchObject ''Fetch project ID'') = ErrNoSuchObject"
    by simp
next
  assume s: "fst (CreateOperation c project uuid typ) = (new, None)"
  from CreateOperation_success [OF s] obtain pid
    where pid: "if project = [] then pid = None
                else \<exists>p \<in> set (projects_tbl (tx c)). project_name p = project \<and> pid = Some (project_id p)"
      and run: "snd (CreateOperation c project uuid typ) = c\<lparr>tx := upserted (tx c) uuid (nodeID c) typ pid\<rparr>"
      and new: "new = fresh_id (operations_tbl (tx c))"
    by blast
  from pid run new
  show "\<exists>pid. (if project = [] then pid = None
                else \<exists>p \<in> set (projects_tbl (tx c)). project_name p = project \<and> pid = Some (project_id p))
           \<and> operations_tbl (tx (snd (CreateOperation c project uuid typ)))
               = filter (\<lambda>r. op_uuid r \<noteq> uuid) (operations_tbl (tx c))
                 @ [\<lparr>op_id = new, op_uuid = uuid, op_node_id = nodeID c, op_type = typ,
                     op_project_id = pid\<rparr>]"
    by (intro exI [of _ pid]) (simp add: upserted_def)
  from new fresh_id_new [of _ "operations_tbl (tx c)"]
  show "\<forall>r \<in> set (operations_tbl (tx c)). op_id r \<noteq> new"
    by fastforce
  from run show "nodeID (snd (CreateOperation c project uuid typ)) = nodeID c"
    by simp
next
  assume "store_ok (tx c) \<and> nodeID c \<in> set (map node_id (nodes_tbl (tx c)))
        \<and> (project = [] \<or> (\<exists>p \<in> set (projects_tbl (tx c)). project_name p = project))"
  then show "snd (fst (CreateOperation c project uuid typ)) = None"
    using CreateOperation_succeeds [of c project uuid "typ"] by simp
qed

lemmas create_defs =
  CreateOperation_def GetProjectID_def UpsertObject_def tx_Exec_def insert_or_replace_def
  result_LastInsertId_def fresh_id_def

lemma example_create_global:
  "fst (CreateOperation (example_ctx [row_b] 1) [] ''abc-9'' 5) = (3, None)"
  by (simp add: create_defs example_defs)

lemma example_create_other:
  "fst (CreateOperation (example_ctx [row_b] 1) ''other'' ''abc-2'' 5) = (3, None)"
  by (simp add: create_defs example_defs)

theorem CreateOperation_upsert_witness:
  "fst (CreateOperation (example_ctx [row_b] 1) [] ''abc-9'' 5) = (3, None)
   \<and> operations_tbl (tx (snd (CreateOperation (example_ctx [row_b] 1) [] ''abc-9'' 5)))
       = [row_b, \<lparr>op_id = 3, op_uuid = ''abc-9'', op_node_id = 1, op_type = 5, op_project_id = None\<rparr>]
   \<and> fst (CreateOperation (example_ctx [row_b] 1) ''other'' ''abc-2'' 5) = (3, None)
   \<and> operations_tbl (tx (snd (CreateOperation (example_ctx [row_b] 1) ''other'' ''abc-2'' 5)))
       = [\<lparr>op_id = 3, op_uuid = ''abc-2'', op_node_id = 1, op_type = 5, op_project_id = Some 2\<rparr>]
   \<and> CreateOperation (example_ctx [row_b] 1) ''nope'' ''abc-2'' 5
       = ((- 1, Some (Wrap ErrNoSuchObject ''Fetch project ID'')), example_ctx [row_b] 1)"
proof -
  let ?c = "example_ctx [row_b] 1"
  have sel: "operations_tbl (tx ?c) = [row_b]" "projects_tbl (tx ?c) = example_projects"
    "nodeID ?c = 1" "fail (tx ?c) Query = None"
    by (simp_all add: example_ctx_def no_failure_def)
  have global: "operations_tbl (tx (snd (CreateOperation ?c [] ''abc-9'' 5)))
       = [row_b, \<lparr>op_id = 3, op_uuid = ''abc-9'', op_node_id = 1, op_type = 5, op_project_id = None\<rparr>]"
    using CreateOperation_upsert [of "[]" ?c "''abc-9''" 5 3] example_create_global
    unfolding sel by (simp add: row_b_def)
  have other: "operations_tbl (tx (snd (CreateOperation ?c ''other'' ''abc-2'' 5)))
       = [\<lparr>op_id = 3, op_uuid = ''abc-2'', op_node_id = 1, op_type = 5, op_project_id = Some 2\<rparr>]"
    using CreateOperation_upsert [of "''other''" ?c "''abc-2''" 5 3] example_create_other
    unfolding sel by (auto simp: row_b_def example_projects_def)
  have nope: "CreateOperation ?c ''nope'' ''abc-2'' 5
       = ((- 1, Some (Wrap ErrNoSuchObject ''Fetch project ID'')), ?c)"
    using CreateOperation_upsert [of "''nope''" ?c "''abc-2''" 5 0]
    unfolding sel by (auto simp: example_projects_def prod_eq_iff)
  from example_create_global global example_create_other other nope show ?thesis
    by (simp only: simp_thms)
qed

lemma upserted_single:
  "filter (\<lambda>r. op_uuid r = u) (operations_tbl (upserted t u n ty pid))
     = [\<lparr>op_id = fresh_id (operations_tbl t), op_uuid = u, op_node_id = n, op_type = ty,
         op_project_id = pid\<rparr>]"
  by (simp add: upserted_def filter_empty_conv)

lemma upserted_distinct:
  assumes "distinct (map op_uuid (operations_tbl t))"
  shows "distinct (map op_uuid (operations_tbl (upserted t u n ty pid)))"
  using assms by (auto simp: upserted_def distinct_map_filter)

lemma CreateOperation_distinct:
  assumes "distinct (map op_uuid (operations_tbl (tx c)))"
  shows "distinct (map op_uuid (operations_tbl (tx (snd (CreateOperation c project uuid typ)))))"
  using CreateOperation_table [of c project uuid "typ"] assms upserted_distinct [of "tx c"]
  by auto

lemma RemoveOperation_distinct:
  assumes "distinct (map op_uuid (operations_tbl (tx c)))"
  shows "distinct (map op_uuid (operations_tbl (tx (snd (RemoveOperation c uuid)))))"
  using assms by (simp add: RemoveOperation_run distinct_map_filter split: option.splits)

lemma removeNodeOperations_distinct:
  assumes "distinct (map op_uuid (operations_tbl (tx c)))"
  shows "distinct (map op_uuid (operations_tbl (tx (snd (removeNodeOperations c nid)))))"
  using assms
  by (cases "fail (tx c) Exec")
     (simp_all add: removeNodeOperations_def tx_Exec_def distinct_map_filter)

lemma step_distinct:
  assumes "distinct (map op_uuid (operations_tbl (tx c)))"
  shows "distinct (map op_uuid (operations_tbl (tx (step c a))))"
proof (cases a)
  case (Create project uuid ty)
  with assms show ?thesis by (simp add: CreateOperation_distinct)
next
  case (Remove uuid)
  with assms show ?thesis by (simp add: RemoveOperation_distinct)
next
  case (RemoveNode nid)
  with assms show ?thesis by (simp add: removeNodeOperations_distinct)
next
  case (Context n f e)
  with assms show ?thesis by simp
next
  case (Tables ns ps)
  with assms show ?thesis by simp
qed

lemma run_distinct:
  "distinct (map op_uuid (operations_tbl (tx c))) \<Longrightarrow>
   distinct (map op_uuid (operations_tbl (tx (run c acts))))"
  unfolding run_def by (induction acts arbitrary: c) (simp_all add: step_distinct)

text \<open>
  Claim C5. After two successful calls of \<^verbatim>\<open>CreateOperation\<close> with the same uuid, one
  row has that uuid, and it carries the type and the project of the second call. In every
  state reached from an empty operations table, by any sequence of actions, no two rows
  have the same uuid.
\<close>

theorem CreateOperation_one_row_per_uuid:
  "(fst (CreateOperation c project1 uuid typ1) = (new1, None)
    \<and> fst (CreateOperation (snd (CreateOperation c project1 uuid typ1)) project2 uuid typ2) = (new2, None) \<longrightarrow>
      (\<exists>pid. (if project2 = [] then pid = None
              else \<exists>p \<in> set (projects_tbl (tx c)). project_name p = project2 \<and> pid = Some (project_id p))
         \<and> filter (\<lambda>r. op_uuid r = uuid)
              (operations_tbl (tx (snd (CreateOperation (snd (CreateOperation c project1 uuid typ1))
                                         project2 uuid typ2))))
             = [\<lparr>op_id = new2, op_uuid = uuid, op_node_id = nodeID c, op_type = typ2,
                 op_project_id = pid\<rparr>]))
   \<and> (operations_tbl (tx c) = [] \<longrightarrow> distinct (map op_uuid (operations_tbl (tx (run c acts)))))"
proof (intro conjI impI)
  let ?c1 = "snd (CreateOperation c project1 uuid typ1)"
  assume "fst (CreateOperation c project1 uuid typ1) = (new1, None)
    \<and> fst (CreateOperation ?c1 project2 uuid typ2) = (new2, None)"
  then have s1: "fst (CreateOperation c project1 uuid typ1) = (new1, None)"
    and s2: "fst (CreateOperation ?c1 project2 uuid typ2) = (new2, None)"
    by simp_all
  from CreateOperation_success [OF s1] obtain pid1
    where c1: "?c1 = c\<lparr>tx := upserted (tx c) uuid (nodeID c) typ1 pid1\<rparr>"
    by auto
  have same: "projects_tbl (tx ?c1) = projects_tbl (tx c)" "nodeID ?c1 = nodeID c"
    by (simp_all add: c1 upserted_def)
  from CreateOperation_success [OF s2] obtain pid
    where pid: "if project2 = [] then pid = None
                else \<exists>p \<in> set (projects_tbl (tx ?c1)). project_name p = project2 \<and> pid = Some (project_id p)"
      and run: "snd (CreateOperation ?c1 project2 uuid typ2)
                  = ?c1\<lparr>tx := upserted (tx ?c1) uuid (nodeID ?c1) typ2 pid\<rparr>"
      and new: "new2 = fresh_id (operations_tbl (tx ?c1))"
    by auto
  have "filter (\<lambda>r. op_uuid r = uuid) (operations_tbl (tx (snd (CreateOperation ?c1 project2 uuid typ2))))
          = [\<lparr>op_id = new2, op_uuid = uuid, op_node_id = nodeID c, op_type = typ2, op_project_id = pid\<rparr>]"
    unfolding run by (simp add: upserted_single new same)
  moreover from pid have "if project2 = [] then pid = None
                else \<exists>p \<in> set (projects_tbl (tx c)). project_name p = project2 \<and> pid = Some (project_id p)"
    unfolding same .
  ultimately
  show "\<exists>pid. (if project2 = [] then pid = None
              else \<exists>p \<in> set (projects_tbl (tx c)). project_name p = project2 \<and> pid = Some (project_id p))
         \<and> filter (\<lambda>r. op_uuid r = uuid)
              (operations_tbl (tx (snd (CreateOperation ?c1 project2 uuid typ2))))
             = [\<lparr>op_id = new2, op_uuid = uuid, op_node_id = nodeID c, op_type = typ2,
                 op_project_id = pid\<rparr>]"
    by (intro exI [of _ pid] conjI)
next
  assume "operations_tbl (tx c) = []"
  then have "distinct (map op_uuid (operations_tbl (tx c)))"
    by simp
  then show "distinct (map op_uuid (operations_tbl (tx (run c acts))))"
    by (rule run_distinct)
qed

lemma example_create_first:
  "CreateOperation (example_ctx [] 1) ''default'' ''abc-1'' 7
     = ((1, None),
        example_ctx [\<lparr>op_id = 1, op_uuid = ''abc-1'', op_node_id = 1, op_type = 7,
                       op_project_id = Some 1\<rparr>] 1)"
  by (simp add: create_defs example_defs)

lemma example_create_second:
  "fst (CreateOperation
          (example_ctx [\<lparr>op_id = 1, op_uuid = ''abc-1'', op_node_id = 1, op_type = 7,
                         op_project_id = Some 1\<rparr>] 1) [] ''abc-1'' 9) = (2, None)"
  by (simp add: create_defs example_defs)

theorem CreateOperation_one_row_per_uuid_witness:
  "fst (CreateOperation (example_ctx [] 1) ''default'' ''abc-1'' 7) = (1, None)
   \<and> fst (CreateOperation (snd (CreateOperation (example_ctx [] 1) ''default'' ''abc-1'' 7)) [] ''abc-1'' 9)
       = (2, None)
   \<and> filter (\<lambda>r. op_uuid r = ''abc-1'')
        (operations_tbl (tx (snd (CreateOperation
            (snd (CreateOperation (example_ctx [] 1) ''default'' ''abc-1'' 7)) [] ''abc-1'' 9))))
       = [\<lparr>op_id = 2, op_uuid = ''abc-1'', op_node_id = 1, op_type = 9, op_project_id = None\<rparr>]
   \<and> operations_tbl (tx (example_ctx [] 1)) = []
   \<and> distinct (map op_uuid (operations_tbl (tx
        (run (example_ctx [] 1)
           [Create ''default'' ''abc-1'' 7, Context 2 no_failure None, Create [] ''abc-1'' 9,
            Create ''other'' ''abc-2'' 7, Remove ''abc-1'', RemoveNode 2]))))"
proof -
  let ?c = "example_ctx [] 1"
  let ?c1 = "snd (CreateOperation ?c ''default'' ''abc-1'' 7)"
  let ?c2 = "snd (CreateOperation ?c1 [] ''abc-1'' 9)"
  let ?acts = "[Create ''default'' ''abc-1'' 7, Context 2 no_failure None, Create [] ''abc-1'' 9,
            Create ''other'' ''abc-2'' 7, Remove ''abc-1'', RemoveNode 2]"
  have s1: "fst (CreateOperation ?c ''default'' ''abc-1'' 7) = (1, None)"
    by (simp add: example_create_first)
  have s2: "fst (CreateOperation ?c1 [] ''abc-1'' 9) = (2, None)"
    by (simp add: example_create_first example_create_second)
  have e: "operations_tbl (tx ?c) = []"
    by (simp add: example_ctx_def)
  have n: "nodeID ?c = 1"
    by (simp add: example_ctx_def)
  have one: "filter (\<lambda>r. op_uuid r = ''abc-1'') (operations_tbl (tx ?c2))
       = [\<lparr>op_id = 2, op_uuid = ''abc-1'', op_node_id = 1, op_type = 9, op_project_id = None\<rparr>]"
    using CreateOperation_one_row_per_uuid [of ?c "''default''" "''abc-1''" 7 1 "[]" 9 2] s1 s2
    unfolding n by simp
  have d: "distinct (map op_uuid (operations_tbl (tx (run ?c ?acts))))"
    using CreateOperation_one_row_per_uuid [of ?c "''default''" "''abc-1''" 7 1 "[]" 9 2 ?acts] e
    by simp
  from s1 s2 one e d show ?thesis
    by (simp only: simp_thms)
qed

subsection \<open>The list accessors and the filtered query\<close>













end
